(* ===== verification/Prelude.thy ===== *)
theory Prelude
  imports Main "HOL-Library.Multiset"
begin

text \<open>
  Shared vocabulary of the deposit tracker development: the names of the model's basic
  types, the collections of facts the component theories extend, and the generic lemmas
  on integer ranges that the component proofs use.
\<close>

section \<open>Names of the model's types\<close>

text \<open>
  Block numbers, timestamps and gas prices are JavaScript numbers or ethers
  \<open>BigNumber\<close>s in the source. Every value the tracker handles is an integer well inside
  the range where JavaScript arithmetic is exact, so they are modelled as \<open>int\<close>.
\<close>

type_synonym block_num = int
type_synonym address = string
type_synonym tx_hash = string

section \<open>Fact collections\<close>

text \<open>
  \<open>eval_simps\<close> collects the defining equations of the program's operations, together
  with the conversions on characters they need, so that \<open>simp\<close> evaluates a run of the
  model on a concrete input; each component theory adds its operations to it.
\<close>

named_theorems eval_simps

declare char_of_eq_iff [eval_simps]

section \<open>Integer ranges\<close>

text \<open>The loop of the tracker walks the range \<open>[lo..hi]\<close> one block at a time.\<close>

lemma upto_Cons_if: "[lo..hi] = (if lo \<le> hi then lo # [lo + 1..hi] else [])"
  by (simp add: upto_rec1)

end
