(* ===== verification/Js_Strings.thy ===== *)
theory Js_Strings
  imports Prelude
begin

text \<open>
  The JavaScript runtime operations on strings that the tracker relies on: rendering an
  integer in decimal (\<open>Number.prototype.toString\<close>, \<open>BigNumber.toString\<close> and the
  \<open>${n}\<close> of a template literal all print an integer in plain decimal), and
  \<open>String.prototype.toLowerCase\<close>, modelled on ASCII (Ethereum addresses are ASCII
  hexadecimal). A decimal reader is the inverse of the printer: the round trip shows that
  the \<open>fee\<close> string of a record determines the gas price it came from.
\<close>

section \<open>Decimal printing\<close>

definition digit_char :: "nat \<Rightarrow> char" where
  "digit_char d = char_of (48 + d)"

fun nat_string :: "nat \<Rightarrow> string" where
  "nat_string n =
     (if n < 10 then [digit_char n] else nat_string (n div 10) @ [digit_char (n mod 10)])"

declare nat_string.simps [simp del]

definition int_string :: "int \<Rightarrow> string" where
  "int_string i = (if i < 0 then CHR ''-'' # nat_string (nat (- i)) else nat_string (nat i))"

section \<open>Decimal reading\<close>

definition digit_val :: "char \<Rightarrow> nat" where
  "digit_val c = (of_char c :: nat) - 48"

definition is_digit :: "char \<Rightarrow> bool" where
  "is_digit c \<longleftrightarrow> 48 \<le> (of_char c :: nat) \<and> (of_char c :: nat) \<le> 57"

definition parse_nat :: "string \<Rightarrow> nat" where
  "parse_nat s = foldl (\<lambda>acc c. 10 * acc + digit_val c) 0 s"

definition parse_int :: "string \<Rightarrow> int" where
  "parse_int s =
     (case s of c # r \<Rightarrow> if c = CHR ''-'' then - int (parse_nat r) else int (parse_nat s)
      | [] \<Rightarrow> 0)"

section \<open>ASCII lower case\<close>

definition lower_char :: "char \<Rightarrow> char" where
  "lower_char c =
     (if 65 \<le> (of_char c :: nat) \<and> (of_char c :: nat) \<le> 90 then char_of ((of_char c :: nat) + 32) else c)"

definition to_lower :: "string \<Rightarrow> string" where
  "to_lower s = map lower_char s"

section \<open>Lemmas on the printer\<close>

lemma digit_val_digit_char [simp]: "d < 10 \<Longrightarrow> digit_val (digit_char d) = d"
  by (simp add: digit_val_def digit_char_def)

lemma is_digit_digit_char [simp]: "d < 10 \<Longrightarrow> is_digit (digit_char d)"
  by (simp add: is_digit_def digit_char_def)

lemma parse_nat_snoc: "parse_nat (s @ [c]) = 10 * parse_nat s + digit_val c"
  by (simp add: parse_nat_def)

lemma nat_string_digits: "\<forall>c \<in> set (nat_string n). is_digit c"
proof (induction n rule: nat_string.induct)
  case (1 n)
  then show ?case by (subst nat_string.simps) auto
qed

lemma nat_string_nonempty [simp]: "nat_string n \<noteq> []"
  by (subst nat_string.simps) simp

lemma is_digit_not_minus: "is_digit c \<Longrightarrow> c \<noteq> CHR ''-''"
  by (auto simp: is_digit_def)

lemma hd_nat_string_not_minus: "hd (nat_string n) \<noteq> CHR ''-''"
  using nat_string_digits [of n] hd_in_set [OF nat_string_nonempty [of n]]
  by (blast dest: is_digit_not_minus)

lemma parse_nat_nat_string [simp]: "parse_nat (nat_string n) = n"
proof (induction n rule: nat_string.induct)
  case (1 n)
  show ?case
  proof (cases "n < 10")
    case True
    then show ?thesis by (subst nat_string.simps) (simp add: parse_nat_def)
  next
    case False
    with "1.IH" have "parse_nat (nat_string (n div 10)) = n div 10" by simp
    with False show ?thesis
      by (subst nat_string.simps) (simp add: parse_nat_snoc)
  qed
qed

lemma parse_int_int_string_lemma: "parse_int (int_string i) = i"
proof (cases "i < 0")
  case True
  then show ?thesis by (simp add: int_string_def parse_int_def)
next
  case False
  obtain c r where cr: "nat_string (nat i) = c # r" and "c \<noteq> CHR ''-''"
    using hd_nat_string_not_minus [of "nat i"] nat_string_nonempty [of "nat i"]
    by (cases "nat_string (nat i)") auto
  moreover have "parse_nat (c # r) = nat i"
    using parse_nat_nat_string [of "nat i"] cr by simp
  ultimately show ?thesis
    using False by (simp add: int_string_def parse_int_def)
qed


declare int_string_def [eval_simps] nat_string.simps [eval_simps] digit_char_def [eval_simps]

end
