(* ===== verification/Deposit.thy ===== *)
theory Deposit
  imports Js_Strings
begin

text \<open>
  The data the tracker handles. A transaction and a block are the objects returned by
  the chain-data provider (alchemy-sdk's \<open>getBlockWithTransactions\<close>); a deposit is
  a document of the \<open>deposits\<close> collection declared by the mongoose schema of
  src/backend/index.js (lines 34--45). \<open>new_deposit\<close> is the record construction of
  the tracking loop (lines 99--105), including the \<open>TypeError\<close> that
  \<open>deposit.gasPrice.toString()\<close> raises when a transaction has no gas price.
\<close>

section \<open>Provider data\<close>

text \<open>
  Only the fields the tracker reads. \<open>tx_to\<close> is \<open>None\<close> for a contract creation
  (\<open>to: null\<close>); \<open>tx_gasPrice\<close> is \<open>None\<close> when the provider leaves the field out.
  The block timestamp is in seconds, as the provider returns it.
\<close>

record tx =
  tx_hash :: tx_hash
  tx_to :: "address option"
  tx_gasPrice :: "int option"
  tx_input :: string

record block =
  blk_timestamp :: int
  blk_transactions :: "tx list"

section \<open>The stored record\<close>

text \<open>
  The five fields of \<open>depositSchema\<close>. \<open>blockTimestamp\<close> is a JavaScript \<open>Date\<close>,
  represented by its value in milliseconds since the epoch; mongoose's own \<open>_id\<close> is not
  modelled.
\<close>

record deposit =
  blockNumber :: block_num
  blockTimestamp :: int
  fee :: string
  hash :: tx_hash
  pubkey :: string

section \<open>Errors\<close>

text \<open>
  The two exceptions that reach the outer \<open>catch\<close> of \<open>trackDeposits\<close>: a rejected
  provider request, and the \<open>TypeError\<close> of calling \<open>toString\<close> on a missing gas
  price.
\<close>

datatype error = ProviderError | TypeError

section \<open>Record construction\<close>

definition new_deposit :: "block_num \<Rightarrow> block \<Rightarrow> tx \<Rightarrow> error + deposit" where
  "new_deposit currentBlock blockDetails d =
     (case tx_gasPrice d of
        None \<Rightarrow> Inl TypeError
      | Some g \<Rightarrow> Inr \<lparr>blockNumber = currentBlock,
                      blockTimestamp = blk_timestamp blockDetails * 1000,
                      fee = int_string g,
                      hash = tx_hash d,
                      pubkey = tx_input d\<rparr>)"

text \<open>The transactions whose record construction does not throw.\<close>

definition has_gas_price :: "tx \<Rightarrow> bool" where
  "has_gas_price d \<longleftrightarrow> tx_gasPrice d \<noteq> None"

lemma new_deposit_Inr_iff:
  "new_deposit n b d = Inr r \<longleftrightarrow>
     (\<exists>g. tx_gasPrice d = Some g \<and> r = \<lparr>blockNumber = n, blockTimestamp = blk_timestamp b * 1000,
        fee = int_string g, hash = tx_hash d, pubkey = tx_input d\<rparr>)"
  by (auto simp: new_deposit_def split: option.splits)

text \<open>
  C7. Record round trip: a record built from a transaction gives back the block number,
  the block timestamp (the \<open>Date\<close> is the timestamp in milliseconds), the gas price
  (the \<open>fee\<close> text reads back as the exact integer), the hash and the input.
\<close>

theorem new_deposit_roundtrip:
  "new_deposit n b d = Inr r \<Longrightarrow>
     blockNumber r = n \<and> blockTimestamp r div 1000 = blk_timestamp b \<and>
     tx_gasPrice d = Some (parse_int (fee r)) \<and> hash r = tx_hash d \<and> pubkey r = tx_input d"
  by (auto simp: new_deposit_Inr_iff parse_int_int_string_lemma)


declare new_deposit_def [eval_simps] has_gas_price_def [eval_simps]

end
