(* ===== verification/Deposit_Filter.thy ===== *)
theory Deposit_Filter
  imports Deposit
begin

text \<open>
  The deposit filter of the tracking loop (src/backend/index.js, lines 70 and 93--95):
  a transaction is a deposit when its \<open>to\<close> field is truthy (present and not the empty
  string) and equals the Beacon Deposit Contract address after both are lower-cased.
\<close>

definition contractAddress :: address where
  "contractAddress = ''0x00000000219ab540356cBB839Cbe05303d7705Fa''"

definition is_deposit :: "address \<Rightarrow> tx \<Rightarrow> bool" where
  "is_deposit addr t \<longleftrightarrow>
     (case tx_to t of None \<Rightarrow> False | Some a \<Rightarrow> a \<noteq> [] \<and> to_lower a = to_lower addr)"

definition deposits_of :: "address \<Rightarrow> tx list \<Rightarrow> tx list" where
  "deposits_of addr transactions = filter (is_deposit addr) transactions"

section \<open>Lower case\<close>

lemma to_lower_Nil [simp]: "to_lower [] = []"
  by (simp add: to_lower_def)

lemma to_lower_contractAddress:
  "to_lower contractAddress = ''0x00000000219ab540356cbb839cbe05303d7705fa''"
  by (simp add: to_lower_def contractAddress_def lower_char_def char_of_eq_iff)

section \<open>The filter\<close>

text \<open>
  The truthiness test \<open>tx.to &&\<close> only rejects the empty string, which can never equal
  the (non-empty) contract address after lower-casing: for the tracked contract, the
  filter is exactly a case-insensitive comparison of the recipient.
\<close>

lemma is_deposit_contract_iff:
  "is_deposit contractAddress t \<longleftrightarrow>
     (\<exists>a. tx_to t = Some a \<and> to_lower a = ''0x00000000219ab540356cbb839cbe05303d7705fa'')"
  by (auto simp: is_deposit_def to_lower_contractAddress split: option.splits)

text \<open>
  C6. Filter correctness: the deposits of a block are exactly its transactions, in their
  order, whose recipient equals the Beacon Deposit Contract address up to letter case.
\<close>

theorem deposits_of_correct:
  "deposits_of contractAddress txs =
     [t \<leftarrow> txs. \<exists>a. tx_to t = Some a \<and> to_lower a = ''0x00000000219ab540356cbb839cbe05303d7705fa'']"
  unfolding deposits_of_def by (rule filter_cong) (simp_all add: is_deposit_contract_iff)


declare deposits_of_def [eval_simps] is_deposit_contract_iff [eval_simps] to_lower_contractAddress [eval_simps]

end
