(* ===== verification/Store.thy ===== *)
theory Store
  imports Deposit
begin

text \<open>
  The \<open>deposits\<close> MongoDB collection behind the mongoose model \<open>Deposit\<close>
  (src/backend/index.js, lines 34--45). The collection is the list of its documents in
  insertion order, which is the order \<open>Deposit.find()\<close> returns them in. \<open>save\<close>
  is \<open>newDeposit.save()\<close>: it inserts the document, or rejects (connection loss, a
  failed validation) and leaves the collection as it was; the parameter \<open>ok\<close> is the
  database's answer. There is no uniqueness index, so nothing stops a second document
  with the same hash.
\<close>

type_synonym collection = "deposit list"

definition save :: "bool \<Rightarrow> deposit \<Rightarrow> collection \<Rightarrow> collection option" where
  "save ok d c = (if ok then Some (c @ [d]) else None)"

definition find_all :: "collection \<Rightarrow> deposit list" where
  "find_all c = c"

section \<open>Abstract view\<close>

text \<open>
  The specification's store is a multiset of records; \<open>hash_count\<close> counts the records
  with a given hash, the quantity the specification wants to stay at most one.
\<close>

definition store_abs :: "collection \<Rightarrow> deposit multiset" where
  "store_abs c = mset c"

definition hash_count :: "collection \<Rightarrow> tx_hash \<Rightarrow> nat" where
  "hash_count c h = length (filter (\<lambda>d. hash d = h) c)"

definition unique_hashes :: "collection \<Rightarrow> bool" where
  "unique_hashes c \<longleftrightarrow> distinct (map hash c)"

text \<open>
  The types of the data model (section 3 of the specification) that the schema's
  \<open>String\<close> and \<open>Date\<close> fields do not enforce: the fee is decimal-as-text (the
  canonical decimal rendering of an integer), and the timestamp is a block timestamp, a
  whole number of seconds expressed in milliseconds.
\<close>

definition decimal_text :: "string \<Rightarrow> bool" where
  "decimal_text t \<longleftrightarrow> t = int_string (parse_int t)"

definition wf_record :: "deposit \<Rightarrow> bool" where
  "wf_record r \<longleftrightarrow> decimal_text (fee r) \<and> blockTimestamp r mod 1000 = 0"

section \<open>Lemmas\<close>

lemma hash_count_append [simp]:
  "hash_count (c @ ds) h = hash_count c h + hash_count ds h"
  by (simp add: hash_count_def)

lemma hash_count_single [simp]: "hash_count [d] h = (if hash d = h then 1 else 0)"
  by (simp add: hash_count_def)

lemma hash_count_Nil [simp]: "hash_count [] h = 0"
  by (simp add: hash_count_def)

lemma hash_count_pos: "0 < hash_count c h \<longleftrightarrow> h \<in> set (map hash c)"
  by (auto simp: hash_count_def filter_empty_conv)

lemma unique_hashes_iff_count: "unique_hashes c \<longleftrightarrow> (\<forall>h. hash_count c h \<le> 1)"
proof (induction c rule: rev_induct)
  case Nil
  then show ?case by (simp add: unique_hashes_def)
next
  case (snoc d c)
  have cnt: "hash_count (c @ [d]) h = hash_count c h + (if hash d = h then 1 else 0)" for h
    by simp
  show ?case
  proof
    assume "unique_hashes (c @ [d])"
    with snoc.IH hash_count_pos [of c "hash d"] show "\<forall>h. hash_count (c @ [d]) h \<le> 1"
      by (auto simp: cnt unique_hashes_def)
  next
    assume all: "\<forall>h. hash_count (c @ [d]) h \<le> 1"
    then have "\<forall>h. hash_count c h \<le> 1" by (metis cnt le_add1 order_trans)
    moreover from all [rule_format, of "hash d"] have "hash_count c (hash d) = 0"
      by (simp add: cnt)
    ultimately show "unique_hashes (c @ [d])"
      using snoc.IH hash_count_pos [of c "hash d"] by (simp add: unique_hashes_def)
  qed
qed

text \<open>A hash that occurs in both parts of a collection occurs twice: uniqueness is lost.\<close>

lemma hash_count_dup:
  assumes "h \<in> set (map hash c)" and "h \<in> set (map hash d)"
  shows "2 \<le> hash_count (c @ d) h \<and> \<not> unique_hashes (c @ d)"
proof -
  from assms have "0 < hash_count c h" "0 < hash_count d h" by (simp_all add: hash_count_pos)
  then have two: "2 \<le> hash_count (c @ d) h" by simp
  then have "\<exists>h'. \<not> hash_count (c @ d) h' \<le> 1" by (intro exI [of _ h]) simp
  with two show ?thesis by (simp add: unique_hashes_iff_count)
qed


declare save_def [eval_simps]

end
