(* ===== verification/Notifier.thy ===== *)
theory Notifier
  imports Deposit
begin

text \<open>
  The Telegram side channel of src/backend/index.js: \<open>sendTelegramMessage\<close>
  (lines 59--62) appends the fixed signature and hands the text to
  \<open>bot.sendMessage\<close> for the one configured chat (line 56) without awaiting it; the
  alert text is the template literal of lines 110--114. The outbox is the list of texts
  handed to the bot, in order: a send is an attempt, and its later failure (a rejected
  promise that the code never observes) changes nothing the program reads.
\<close>

definition nl :: char where
  "nl = CHR 0x0A"

definition signature_line :: string where
  "signature_line = ''- Adithya Kumar Reddy''"

definition messageWithSignature :: "string \<Rightarrow> string" where
  "messageWithSignature message = message @ [nl, nl] @ signature_line"

type_synonym outbox = "string list"

definition sendTelegramMessage :: "string \<Rightarrow> outbox \<Rightarrow> outbox" where
  "sendTelegramMessage message box = box @ [messageWithSignature message]"

text \<open>
  \<open>${new Date(ts * 1000)}\<close> renders a \<open>Date\<close> with \<open>Date.prototype.toString\<close>,
  whose text depends on the host's time zone: it is the parameter \<open>date_str\<close>, applied
  to the date's value in milliseconds. \<open>${deposit.gasPrice}\<close> renders the
  \<open>BigNumber\<close> with its \<open>toString\<close>, the same text as the record's \<open>fee\<close>
  (line 102), so the rendered gas price is a parameter of the template.
\<close>

definition deposit_message ::
  "(int \<Rightarrow> string) \<Rightarrow> block_num \<Rightarrow> int \<Rightarrow> tx_hash \<Rightarrow> string \<Rightarrow> string \<Rightarrow> string" where
  "deposit_message date_str currentBlock timestamp h gasPrice input =
     ''New deposit detected!'' @ [nl] @
     ''Block Number: '' @ int_string currentBlock @ [nl] @
     ''Timestamp: '' @ date_str (timestamp * 1000) @ [nl] @
     ''Transaction Hash: '' @ h @ [nl] @
     ''Gas Fee: '' @ gasPrice @ [nl] @
     ''Pubkey: '' @ input"

text \<open>The alert of a stored record, read off the record's fields.\<close>

definition record_alert :: "(int \<Rightarrow> string) \<Rightarrow> deposit \<Rightarrow> string" where
  "record_alert date_fmt r =
     messageWithSignature
       (deposit_message date_fmt (blockNumber r) (blockTimestamp r div 1000) (hash r) (fee r) (pubkey r))"

section \<open>Reading an alert back\<close>

text \<open>
  Not part of the program: a reader of the alert text, splitting it at line breaks and
  stripping each line's label. It gives back the block number, the hash, the fee and the
  input; the date line depends on the host and is skipped.
\<close>

fun split_on :: "char \<Rightarrow> string \<Rightarrow> string list" where
  "split_on c [] = [[]]"
| "split_on c (x # xs) =
     (if x = c then [] # split_on c xs
      else (let r = split_on c xs in (x # hd r) # tl r))"

fun join_lines :: "char \<Rightarrow> string list \<Rightarrow> string" where
  "join_lines c [] = []"
| "join_lines c [l] = l"
| "join_lines c (l # ls) = l @ c # join_lines c ls"

definition field :: "string \<Rightarrow> string \<Rightarrow> string option" where
  "field label line =
     (if take (length label) line = label then Some (drop (length label) line) else None)"

definition parse_alert :: "string \<Rightarrow> (int \<times> tx_hash \<times> string \<times> string) option" where
  "parse_alert text =
     (case split_on nl text of
        [l0, l1, l2, l3, l4, l5, l6, l7] \<Rightarrow>
          (if l0 = ''New deposit detected!'' \<and> l6 = [] \<and> l7 = signature_line then
             (case (field ''Block Number: '' l1, field ''Transaction Hash: '' l3,
                    field ''Gas Fee: '' l4, field ''Pubkey: '' l5) of
                (Some bn, Some h, Some gp, Some pk) \<Rightarrow> Some (parse_int bn, h, gp, pk)
              | _ \<Rightarrow> None)
           else None)
      | _ \<Rightarrow> None)"

lemma new_deposit_alert:
  "new_deposit n b d = Inr r \<Longrightarrow>
     messageWithSignature (deposit_message fmt n (blk_timestamp b) (tx_hash d) (fee r) (tx_input d)) =
     record_alert fmt r"
  by (auto simp: new_deposit_Inr_iff record_alert_def)


declare sendTelegramMessage_def [eval_simps]

lemma split_on_no_sep: "c \<notin> set xs \<Longrightarrow> split_on c xs = [xs]"
  by (induction xs) (auto simp: Let_def)

lemma split_on_append_sep:
  "c \<notin> set xs \<Longrightarrow> split_on c (xs @ c # ys) = xs # split_on c ys"
  by (induction xs) (auto simp: Let_def)

lemma split_on_join_lines:
  "ls \<noteq> [] \<Longrightarrow> list_all (\<lambda>l. c \<notin> set l) ls \<Longrightarrow> split_on c (join_lines c ls) = ls"
  by (induction c ls rule: join_lines.induct) (simp_all add: split_on_no_sep split_on_append_sep del: split_on.simps)

lemma nl_not_in_int_string: "nl \<notin> set (int_string i)"
proof -
  have "\<not> is_digit nl" by (simp add: is_digit_def nl_def)
  then have "nl \<notin> set (nat_string n)" for n
    using nat_string_digits [of n] by blast
  then show ?thesis by (simp add: int_string_def nl_def)
qed

text \<open>
  C24. Alert round trip: when the hash, the fee, the input and the rendered date contain
  no line break (they are hexadecimal and decimal texts for the tracker's records), the
  alert of a record reads back as the record's block number, hash, fee and input; the
  alert text identifies the record.
\<close>

theorem record_alert_roundtrip:
  assumes "nl \<notin> set (hash r)" "nl \<notin> set (fee r)" "nl \<notin> set (pubkey r)"
    and "nl \<notin> set (fmt (blockTimestamp r div 1000 * 1000))"
  shows "parse_alert (record_alert fmt r) = Some (blockNumber r, hash r, fee r, pubkey r)"
proof -
  have lbl: "nl \<notin> set ''New deposit detected!''" "nl \<notin> set ''Block Number: ''"
    "nl \<notin> set ''Timestamp: ''" "nl \<notin> set ''Transaction Hash: ''" "nl \<notin> set ''Gas Fee: ''"
    "nl \<notin> set ''Pubkey: ''" "nl \<notin> set signature_line"
    by (simp_all add: nl_def signature_line_def)
  let ?ls = "[''New deposit detected!'', ''Block Number: '' @ int_string (blockNumber r),
       ''Timestamp: '' @ fmt (blockTimestamp r div 1000 * 1000), ''Transaction Hash: '' @ hash r,
       ''Gas Fee: '' @ fee r, ''Pubkey: '' @ pubkey r, [], signature_line]"
  have j: "record_alert fmt r = join_lines nl ?ls"
    by (simp add: record_alert_def messageWithSignature_def deposit_message_def del: split_on.simps)
  have la: "list_all (\<lambda>l. nl \<notin> set l) ?ls"
    using assms lbl nl_not_in_int_string [of "blockNumber r"] by simp
  have sj: "split_on nl (join_lines nl ?ls) = ?ls"
    by (rule split_on_join_lines [OF _ la]) simp
  have "split_on nl (record_alert fmt r) = ?ls"
    using sj by (simp only: j)
  then show ?thesis
    by (simp add: parse_alert_def parse_int_int_string_lemma)
      (simp add: field_def parse_int_int_string_lemma)
qed

end
