(* ===== verification/Backend.thy ===== *)
theory Backend
  imports Deposit_Filter Store Notifier
begin

text \<open>
  The state the backend process of src/backend/index.js changes: the module-level
  \<open>lastProcessedBlock\<close> (line 65), the \<open>deposits\<close> collection, the texts handed
  to the Telegram bot, and the entries written through the winston logger (lines 18--25).
  \<open>requested\<close> is a history variable of the model, not of the program: the block
  numbers requested from the provider, in order, so that ordering and completeness of the
  scan can be stated. \<open>console.log\<close> output is not modelled.
\<close>

datatype log_entry =
    NewDepositSaved tx_hash
  | ErrorSavingDeposit
  | ErrorTrackingDeposits error
  | ManualDepositAdded tx_hash
  | ErrorAddingManualDeposit

record backend =
  lastProcessedBlock :: block_num
  db :: collection
  telegram :: outbox
  logs :: "log_entry list"
  requested :: "block_num list"

text \<open>Process start: the cursor is \<open>0\<close>; the collection is whatever MongoDB holds.\<close>

definition init_backend :: "collection \<Rightarrow> backend" where
  "init_backend c = \<lparr>lastProcessedBlock = 0, db = c, telegram = [], logs = [], requested = []\<rparr>"

definition add_log :: "log_entry \<Rightarrow> backend \<Rightarrow> backend" where
  "add_log l s = s\<lparr>logs := logs s @ [l]\<rparr>"

lemma add_log_fields [simp]:
  "lastProcessedBlock (add_log l s) = lastProcessedBlock s"
  "db (add_log l s) = db s"
  "telegram (add_log l s) = telegram s"
  "logs (add_log l s) = logs s @ [l]"
  "requested (add_log l s) = requested s"
  by (simp_all add: add_log_def)


declare init_backend_def [eval_simps]

end
