(* ===== verification/Tracker.thy ===== *)
theory Tracker
  imports Backend
begin

text \<open>
  The tracking loop \<open>trackDeposits\<close> of src/backend/index.js (lines 68--129), one
  tick of the scheduler. Its collaborators are given as an environment: the chain-data
  provider's answers (alchemy-sdk's \<open>getBlockNumber\<close> and
  \<open>getBlockWithTransactions\<close>: a rejected request, a block, or \<open>null\<close>, which ethers
  returns for a block the node does not have yet), the database's
  answer to each \<open>save\<close>, and the host's rendering of dates. The loop is a
  \<open>function\<close> over the block number, terminating because \<open>latest - current\<close>
  decreases; each exception that reaches the outer \<open>catch\<close> is an \<open>error\<close> value
  returned with the state reached so far, since the global state mutated before the throw
  stays mutated.
\<close>

section \<open>Collaborators\<close>

text \<open>
  What \<open>await alchemy.core.getBlockWithTransactions(n)\<close> settles to: a rejection, the
  value \<open>null\<close>, or a block.
\<close>

datatype block_reply = BlockRejected | BlockNull | BlockOk block

record chain =
  getBlockNumber :: "block_num option"
  getBlockWithTransactions :: "block_num \<Rightarrow> block_reply"

record tick_env = chain +
  save_ok :: "deposit \<Rightarrow> bool"
  date_str :: "int \<Rightarrow> string"

section \<open>One deposit: save, then log and notify (lines 107--120)\<close>

text \<open>
  \<open>after_save\<close> is what runs once \<open>await newDeposit.save()\<close> settles, given whether it
  resolved: on success the record is in the collection, the alert is logged and handed to
  the bot; on rejection the error is logged. \<open>save_and_notify\<close> is the whole
  \<open>try\<close> block with the database's answer taken from the environment.
\<close>

definition after_save ::
  "(int \<Rightarrow> string) \<Rightarrow> bool \<Rightarrow> block_num \<Rightarrow> block \<Rightarrow> tx \<Rightarrow> deposit \<Rightarrow> backend \<Rightarrow> backend" where
  "after_save date_fmt ok currentBlock blockDetails d newDeposit s =
     (case save ok newDeposit (db s) of
        Some c \<Rightarrow>
          s\<lparr>db := c,
            logs := logs s @ [NewDepositSaved (tx_hash d)],
            telegram := sendTelegramMessage
              (deposit_message date_fmt currentBlock (blk_timestamp blockDetails)
                 (tx_hash d) (fee newDeposit) (tx_input d)) (telegram s)\<rparr>
      | None \<Rightarrow> s\<lparr>logs := logs s @ [ErrorSavingDeposit]\<rparr>)"

definition save_and_notify ::
  "tick_env \<Rightarrow> block_num \<Rightarrow> block \<Rightarrow> tx \<Rightarrow> deposit \<Rightarrow> backend \<Rightarrow> backend" where
  "save_and_notify e currentBlock blockDetails d newDeposit s =
     after_save (date_str e) (save_ok e newDeposit) currentBlock blockDetails d newDeposit s"

section \<open>The deposits of one block (lines 98--121)\<close>

fun process_deposits ::
  "tick_env \<Rightarrow> block_num \<Rightarrow> block \<Rightarrow> tx list \<Rightarrow> backend \<Rightarrow> error option \<times> backend" where
  "process_deposits e currentBlock blockDetails [] s = (None, s)"
| "process_deposits e currentBlock blockDetails (d # ds) s =
     (case new_deposit currentBlock blockDetails d of
        Inl err \<Rightarrow> (Some err, s)
      | Inr newDeposit \<Rightarrow>
          process_deposits e currentBlock blockDetails ds
            (save_and_notify e currentBlock blockDetails d newDeposit s))"

section \<open>The block loop (lines 81--125)\<close>

function process_blocks ::
  "tick_env \<Rightarrow> block_num \<Rightarrow> block_num \<Rightarrow> backend \<Rightarrow> error option \<times> backend" where
  "process_blocks e latestBlockNumber currentBlock s =
     (if currentBlock \<le> latestBlockNumber then
        (let s = s\<lparr>requested := requested s @ [currentBlock]\<rparr> in
         case getBlockWithTransactions e currentBlock of
           BlockRejected \<Rightarrow> (Some ProviderError, s)
         | BlockNull \<Rightarrow> (Some TypeError, s)
         | BlockOk blockDetails \<Rightarrow>
             (case process_deposits e currentBlock blockDetails
                     (deposits_of contractAddress (blk_transactions blockDetails)) s of
                (Some err, s') \<Rightarrow> (Some err, s')
              | (None, s') \<Rightarrow>
                  process_blocks e latestBlockNumber (currentBlock + 1)
                    (s'\<lparr>lastProcessedBlock := currentBlock\<rparr>)))
      else (None, s))"
  by pat_completeness auto
termination
  by (relation "measure (\<lambda>(e, latest, cur, s). nat (latest - cur + 1))") auto

declare process_blocks.simps [simp del]

section \<open>One tick (lines 68--129)\<close>

definition trackDeposits :: "tick_env \<Rightarrow> backend \<Rightarrow> backend" where
  "trackDeposits e s =
     (case getBlockNumber e of
        None \<Rightarrow> add_log (ErrorTrackingDeposits ProviderError) s
      | Some latestBlockNumber \<Rightarrow>
          (let s1 = (if lastProcessedBlock s = 0
                     then s\<lparr>lastProcessedBlock := latestBlockNumber - 1\<rparr> else s)
           in case process_blocks e latestBlockNumber (lastProcessedBlock s1 + 1) s1 of
                (None, s2) \<Rightarrow> s2
              | (Some err, s2) \<Rightarrow> add_log (ErrorTrackingDeposits err) s2))"

section \<open>Analysis of a tick\<close>

text \<open>
  Definitions used to state what a tick does; they are not part of the program.
  A block \<^emph>\<open>completes\<close> when the provider returns it and none of its deposits lacks a gas
  price; \<open>first_failure\<close> is the first block of a range that does not; the records a
  block yields are those of its deposits up to the first one without a gas price; the
  records a tick stores for a block are those the database accepts.
\<close>

definition block_completes :: "tick_env \<Rightarrow> block_num \<Rightarrow> bool" where
  "block_completes e n =
     (case getBlockWithTransactions e n of
        BlockOk b \<Rightarrow> list_all has_gas_price (deposits_of contractAddress (blk_transactions b))
      | _ \<Rightarrow> False)"

definition first_failure :: "tick_env \<Rightarrow> block_num \<Rightarrow> block_num \<Rightarrow> block_num option" where
  "first_failure e lo hi = find (\<lambda>n. \<not> block_completes e n) [lo..hi]"

definition block_records :: "block_num \<Rightarrow> block \<Rightarrow> tx list \<Rightarrow> deposit list" where
  "block_records n b ds = [r. Inr r \<leftarrow> map (new_deposit n b) (takeWhile has_gas_price ds)]"

definition scan_records :: "tick_env \<Rightarrow> block_num \<Rightarrow> deposit list" where
  "scan_records e n =
     (case getBlockWithTransactions e n of
        BlockOk b \<Rightarrow> block_records n b (deposits_of contractAddress (blk_transactions b))
      | _ \<Rightarrow> [])"

definition saved_records :: "tick_env \<Rightarrow> block_num \<Rightarrow> deposit list" where
  "saved_records e n = filter (save_ok e) (scan_records e n)"

text \<open>The log line a tick writes for a record once the database has answered.\<close>

definition record_log :: "tick_env \<Rightarrow> deposit \<Rightarrow> log_entry" where
  "record_log e r = (if save_ok e r then NewDepositSaved (hash r) else ErrorSavingDeposit)"

text \<open>The first block a tick requests: the cursor's successor, or the tip on the first run.\<close>

definition scan_start :: "backend \<Rightarrow> block_num \<Rightarrow> block_num" where
  "scan_start s tip = (if lastProcessedBlock s = 0 then tip else lastProcessedBlock s + 1)"

text \<open>
  The line the outer \<open>catch\<close> logs when a tick aborts: on an unreadable tip, or at the
  first block of the range that does not complete.
\<close>

definition tick_abort_log :: "tick_env \<Rightarrow> backend \<Rightarrow> log_entry list" where
  "tick_abort_log e s =
     (case getBlockNumber e of
        None \<Rightarrow> [ErrorTrackingDeposits ProviderError]
      | Some tip \<Rightarrow>
          (case first_failure e (scan_start s tip) tip of
             None \<Rightarrow> []
           | Some k \<Rightarrow> [ErrorTrackingDeposits
                         (if getBlockWithTransactions e k = BlockRejected then ProviderError else TypeError)]))"

section \<open>Lemmas on the range\<close>

lemma first_failure_rec:
  "first_failure e lo hi =
     (if lo \<le> hi then (if block_completes e lo then first_failure e (lo + 1) hi else Some lo)
      else None)"
  by (simp add: first_failure_def upto_Cons_if [of lo hi])

lemma first_failure_range:
  "first_failure e lo hi = Some k \<Longrightarrow> lo \<le> k \<and> k \<le> hi \<and> \<not> block_completes e k"
  by (auto simp: first_failure_def find_Some_iff)

lemma block_completes_save_ok [simp]: "block_completes (e\<lparr>save_ok := f\<rparr>) = block_completes e"
  by (simp add: block_completes_def fun_eq_iff)

lemma first_failure_save_ok [simp]: "first_failure (e\<lparr>save_ok := f\<rparr>) = first_failure e"
  by (simp add: first_failure_def fun_eq_iff)

lemma scan_records_block:
  "getBlockWithTransactions e n = BlockOk b \<Longrightarrow>
     scan_records e n = block_records n b (deposits_of contractAddress (blk_transactions b))"
  by (simp_all add: scan_records_def)

lemma scan_records_blockNumber: "r \<in> set (scan_records e n) \<Longrightarrow> blockNumber r = n"
  by (auto simp: scan_records_def block_records_def new_deposit_def split: option.splits sum.splits)

lemma saved_records_blockNumber: "r \<in> set (saved_records e n) \<Longrightarrow> blockNumber r = n \<and> save_ok e r"
  by (auto simp: saved_records_def dest: scan_records_blockNumber)

lemma new_deposit_wf: "new_deposit n b d = Inr r \<Longrightarrow> wf_record r"
  by (auto simp: new_deposit_Inr_iff wf_record_def decimal_text_def parse_int_int_string_lemma)

lemma saved_records_wf: "r \<in> set (saved_records e n) \<Longrightarrow> wf_record r"
  by (auto simp: saved_records_def scan_records_def block_records_def split: option.splits sum.splits
      intro: new_deposit_wf)

lemma saved_records_block:
  "getBlockWithTransactions e n = BlockOk b \<Longrightarrow>
     saved_records e n = filter (save_ok e) (block_records n b (deposits_of contractAddress (blk_transactions b)))"
  by (simp_all add: saved_records_def scan_records_def)

section \<open>Lemmas on one deposit and one block\<close>

lemma save_and_notify_frame [simp]:
  "lastProcessedBlock (save_and_notify e n b d r s) = lastProcessedBlock s"
  "requested (save_and_notify e n b d r s) = requested s"
  by (simp_all add: save_and_notify_def after_save_def split: option.splits)

lemma save_and_notify_effect:
  "new_deposit n b d = Inr r \<Longrightarrow>
     db (save_and_notify e n b d r s) = db s @ (if save_ok e r then [r] else []) \<and>
     telegram (save_and_notify e n b d r s) =
       telegram s @ (if save_ok e r then [record_alert (date_str e) r] else []) \<and>
     logs (save_and_notify e n b d r s) = logs s @ [record_log e r]"
  by (auto simp: save_and_notify_def after_save_def save_def sendTelegramMessage_def new_deposit_alert
      record_log_def new_deposit_Inr_iff)

lemma process_deposits_frame:
  "process_deposits e n b ds s = (r, s') \<Longrightarrow>
     lastProcessedBlock s' = lastProcessedBlock s \<and> requested s' = requested s"
  by (induction ds arbitrary: s) (auto simp: new_deposit_def split: option.splits)

lemma process_deposits_result:
  "fst (process_deposits e n b ds s) = (if list_all has_gas_price ds then None else Some TypeError)"
  by (induction ds arbitrary: s) (auto simp: new_deposit_def has_gas_price_def split: option.splits)

lemma process_deposits_effect:
  "process_deposits e n b ds s = (r, s') \<Longrightarrow>
     db s' = db s @ filter (save_ok e) (block_records n b ds) \<and>
     telegram s' = telegram s @ map (record_alert (date_str e)) (filter (save_ok e) (block_records n b ds)) \<and>
     logs s' = logs s @ map (record_log e) (block_records n b ds)"
proof (induction ds arbitrary: s)
  case Nil
  then show ?case by (simp add: block_records_def)
next
  case (Cons d ds)
  show ?case
  proof (cases "tx_gasPrice d")
    case None
    with Cons.prems show ?thesis
      by (auto simp: block_records_def new_deposit_def has_gas_price_def)
  next
    case (Some g)
    then obtain r where r: "new_deposit n b d = Inr r" by (simp add: new_deposit_def)
    with Some Cons.prems Cons.IH [of "save_and_notify e n b d r s"] save_and_notify_effect [OF r, of e s]
    show ?thesis
      by (simp add: block_records_def has_gas_price_def)
  qed
qed

section \<open>The block loop\<close>

text \<open>
  The control flow of the loop is determined by the first block of the range that does
  not complete: every block up to it is requested once, in ascending order, the cursor
  ends just before it, and the exception raised there is the one returned.
\<close>

lemma process_blocks_iteration:
  assumes run: "process_blocks e hi cur s = (r, s')" and le: "cur \<le> hi"
  obtains (fetch_error) "getBlockWithTransactions e cur \<in> {BlockRejected, BlockNull}"
      "\<not> block_completes e cur" "scan_records e cur = []" "saved_records e cur = []"
      "r = Some (if getBlockWithTransactions e cur = BlockRejected then ProviderError else TypeError)"
      "s' = s\<lparr>requested := requested s @ [cur]\<rparr>"
  | (deposit_error) b where "getBlockWithTransactions e cur = BlockOk b"
      "\<not> list_all has_gas_price (deposits_of contractAddress (blk_transactions b))"
      "r = Some TypeError"
      "process_deposits e cur b (deposits_of contractAddress (blk_transactions b))
         (s\<lparr>requested := requested s @ [cur]\<rparr>) = (Some TypeError, s')"
  | (next_block) b s1 where "getBlockWithTransactions e cur = BlockOk b"
      "list_all has_gas_price (deposits_of contractAddress (blk_transactions b))"
      "process_deposits e cur b (deposits_of contractAddress (blk_transactions b))
         (s\<lparr>requested := requested s @ [cur]\<rparr>) = (None, s1)"
      "process_blocks e hi (cur + 1) (s1\<lparr>lastProcessedBlock := cur\<rparr>) = (r, s')"
proof (cases "getBlockWithTransactions e cur")
  case BlockRejected
  with run le show ?thesis
    by (auto simp: process_blocks.simps block_completes_def saved_records_def scan_records_def
        intro: fetch_error)
next
  case BlockNull
  with run le show ?thesis
    by (auto simp: process_blocks.simps block_completes_def saved_records_def scan_records_def
        intro: fetch_error)
next
  case (BlockOk b)
  let ?ds = "deposits_of contractAddress (blk_transactions b)"
  let ?s0 = "s\<lparr>requested := requested s @ [cur]\<rparr>"
  obtain r1 s1 where pd: "process_deposits e cur b ?ds ?s0 = (r1, s1)"
    by fastforce
  have r1: "r1 = (if list_all has_gas_price ?ds then None else Some TypeError)"
    using process_deposits_result [of e cur b ?ds ?s0] pd by simp
  show ?thesis
  proof (cases "list_all has_gas_price ?ds")
    case False
    with run le BlockOk pd r1 show ?thesis by (auto simp: process_blocks.simps intro: deposit_error)
  next
    case True
    with run le BlockOk pd r1 show ?thesis by (auto simp: process_blocks.simps intro: next_block)
  qed
qed

lemma process_blocks_control:
  "process_blocks e hi cur s = (r, s') \<Longrightarrow>
     (case first_failure e cur hi of
        None \<Rightarrow> r = None \<and> requested s' = requested s @ [cur..hi] \<and>
                lastProcessedBlock s' = (if cur \<le> hi then hi else lastProcessedBlock s)
      | Some k \<Rightarrow>
          r = Some (if getBlockWithTransactions e k = BlockRejected then ProviderError else TypeError) \<and>
          requested s' = requested s @ [cur..k] \<and>
          lastProcessedBlock s' = (if k = cur then lastProcessedBlock s else k - 1))"
proof (induction e hi cur s arbitrary: r s' rule: process_blocks.induct)
  case (1 e hi cur s)
  show ?case
  proof (cases "cur \<le> hi")
    case False
    with "1.prems" show ?thesis by (simp add: process_blocks.simps first_failure_rec)
  next
    case True
    from "1.prems" True show ?thesis
    proof (cases rule: process_blocks_iteration)
      case fetch_error
      with True show ?thesis by (simp add: first_failure_rec block_completes_def)
    next
      case (deposit_error b)
      with True process_deposits_frame [OF deposit_error(4)] show ?thesis
        by (simp add: first_failure_rec block_completes_def)
    next
      case (next_block b s1)
      note IH = "1.IH" [OF True refl next_block(1) next_block(3) [symmetric] refl next_block(4)]
      have fr: "lastProcessedBlock s1 = lastProcessedBlock s" "requested s1 = requested s @ [cur]"
        using process_deposits_frame [OF next_block(3)] by simp_all
      have ff: "first_failure e cur hi = first_failure e (cur + 1) hi"
        using True next_block by (simp add: first_failure_rec [of e cur hi] block_completes_def)
      show ?thesis
      proof (cases "first_failure e (cur + 1) hi")
        case None
        with IH ff True fr show ?thesis by (simp add: upto_rec1 [of cur hi])
      next
        case (Some k)
        with first_failure_range have "cur + 1 \<le> k" by blast
        with Some IH ff fr show ?thesis by (simp add: upto_rec1 [of cur k])
      qed
    qed
  qed
qed

lemma process_blocks_effect:
  "process_blocks e hi cur s = (r, s') \<Longrightarrow>
     \<exists>ns. requested s' = requested s @ ns \<and>
       db s' = db s @ concat (map (saved_records e) ns) \<and>
       telegram s' = telegram s @ map (record_alert (date_str e)) (concat (map (saved_records e) ns)) \<and>
       logs s' = logs s @ map (record_log e) (concat (map (scan_records e) ns))"
proof (induction e hi cur s arbitrary: r s' rule: process_blocks.induct)
  case (1 e hi cur s)
  show ?case
  proof (cases "cur \<le> hi")
    case False
    with "1.prems" show ?thesis by (auto simp: process_blocks.simps)
  next
    case True
    from "1.prems" True show ?thesis
    proof (cases rule: process_blocks_iteration)
      case fetch_error
      then show ?thesis by (auto simp: saved_records_block scan_records_block)
    next
      case (deposit_error b)
      with process_deposits_frame [OF deposit_error(4)] process_deposits_effect [OF deposit_error(4)]
      show ?thesis
        by (auto simp: saved_records_block scan_records_block intro!: exI [of _ "[cur]"])
    next
      case (next_block b s1)
      from "1.IH" [OF True refl next_block(1) next_block(3) [symmetric] refl next_block(4)]
      obtain ns where "requested s' = requested s1 @ ns"
          "db s' = db s1 @ concat (map (saved_records e) ns)"
          "telegram s' = telegram s1 @ map (record_alert (date_str e)) (concat (map (saved_records e) ns))"
          "logs s' = logs s1 @ map (record_log e) (concat (map (scan_records e) ns))"
        by auto
      with process_deposits_frame [OF next_block(3)] process_deposits_effect [OF next_block(3)]
        next_block(1)
      show ?thesis
        by (auto simp: saved_records_block scan_records_block intro!: exI [of _ "cur # ns"])
    qed
  qed
qed

section \<open>One tick\<close>

lemma trackDeposits_tip:
  "getBlockNumber e = Some tip \<Longrightarrow>
     trackDeposits e s =
       (case process_blocks e tip (scan_start s tip) (s\<lparr>lastProcessedBlock := scan_start s tip - 1\<rparr>) of
          (None, s2) \<Rightarrow> s2
        | (Some err, s2) \<Rightarrow> add_log (ErrorTrackingDeposits err) s2)"
  by (simp add: trackDeposits_def scan_start_def)

lemma trackDeposits_control:
  assumes "getBlockNumber e = Some tip"
  shows "case first_failure e (scan_start s tip) tip of
           None \<Rightarrow> requested (trackDeposits e s) = requested s @ [scan_start s tip..tip] \<and>
                   lastProcessedBlock (trackDeposits e s) = max (scan_start s tip - 1) tip \<and>
                   logs (trackDeposits e s) = logs (snd (process_blocks e tip (scan_start s tip)
                      (s\<lparr>lastProcessedBlock := scan_start s tip - 1\<rparr>)))
         | Some k \<Rightarrow> requested (trackDeposits e s) = requested s @ [scan_start s tip..k] \<and>
                   lastProcessedBlock (trackDeposits e s) = k - 1 \<and>
                   last (logs (trackDeposits e s)) = ErrorTrackingDeposits
                     (if getBlockWithTransactions e k = BlockRejected then ProviderError else TypeError)"
proof -
  let ?s1 = "s\<lparr>lastProcessedBlock := scan_start s tip - 1\<rparr>"
  obtain r s2 where pb: "process_blocks e tip (scan_start s tip) ?s1 = (r, s2)"
    by fastforce
  note ctl = process_blocks_control [OF pb]
  show ?thesis
  proof (cases "first_failure e (scan_start s tip) tip")
    case None
    with ctl pb assms show ?thesis by (auto simp: trackDeposits_tip)
  next
    case (Some k)
    with ctl pb assms show ?thesis by (auto simp: trackDeposits_tip)
  qed
qed

lemma trackDeposits_effect:
  "\<exists>ns. requested (trackDeposits e s) = requested s @ ns \<and>
     db (trackDeposits e s) = db s @ concat (map (saved_records e) ns) \<and>
     telegram (trackDeposits e s) =
       telegram s @ map (record_alert (date_str e)) (concat (map (saved_records e) ns))"
proof (cases "getBlockNumber e")
  case None
  then show ?thesis by (simp add: trackDeposits_def)
next
  case (Some tip)
  let ?s1 = "s\<lparr>lastProcessedBlock := scan_start s tip - 1\<rparr>"
  obtain r s2 where pb: "process_blocks e tip (scan_start s tip) ?s1 = (r, s2)"
    by fastforce
  from process_blocks_effect [OF pb] Some pb show ?thesis
    by (cases r) (auto simp: trackDeposits_tip)
qed

lemma trackDeposits_logs:
  "\<exists>ns. requested (trackDeposits e s) = requested s @ ns \<and>
     logs (trackDeposits e s) = logs s @ map (record_log e) (concat (map (scan_records e) ns)) @ tick_abort_log e s"
proof (cases "getBlockNumber e")
  case None
  then show ?thesis by (simp add: trackDeposits_def tick_abort_log_def)
next
  case (Some tip)
  let ?s1 = "s\<lparr>lastProcessedBlock := scan_start s tip - 1\<rparr>"
  obtain r s2 where pb: "process_blocks e tip (scan_start s tip) ?s1 = (r, s2)"
    by fastforce
  from process_blocks_effect [OF pb] obtain ns where
    ns: "requested s2 = requested s @ ns"
      "logs s2 = logs s @ map (record_log e) (concat (map (scan_records e) ns))"
    by auto
  note ctl = process_blocks_control [OF pb]
  show ?thesis
    using Some pb ns ctl
    by (cases "first_failure e (scan_start s tip) tip") (auto simp: trackDeposits_tip tick_abort_log_def)
qed

lemma trackDeposits_requests_from_start:
  "getBlockNumber e = Some tip \<Longrightarrow>
     \<exists>stop. requested (trackDeposits e s) = requested s @ [scan_start s tip..stop] \<and>
       scan_start s tip - 1 \<le> lastProcessedBlock (trackDeposits e s)"
proof -
  assume tip: "getBlockNumber e = Some tip"
  note ctl = trackDeposits_control [OF tip, of s]
  show ?thesis
  proof (cases "first_failure e (scan_start s tip) tip")
    case None
    with ctl show ?thesis by auto
  next
    case (Some k)
    with first_failure_range have "scan_start s tip \<le> k" by blast
    with Some ctl show ?thesis by auto
  qed
qed

lemma trackDeposits_requests_above:
  assumes "0 < m" and "m \<le> lastProcessedBlock s"
  shows "\<exists>ns. requested (trackDeposits e s) = requested s @ ns \<and> (\<forall>n\<in>set ns. m < n) \<and>
           m \<le> lastProcessedBlock (trackDeposits e s)"
proof (cases "getBlockNumber e")
  case None
  with assms show ?thesis by (simp add: trackDeposits_def)
next
  case (Some tip)
  from assms have start: "scan_start s tip = lastProcessedBlock s + 1"
    by (simp add: scan_start_def)
  from trackDeposits_requests_from_start [OF Some, of s] assms start show ?thesis
    by auto
qed

lemma trackDeposits_stuck_at:
  assumes tip: "getBlockNumber e = Some tip" and ff: "first_failure e k tip = Some k"
    and cur: "lastProcessedBlock s = k - 1" and nz: "k \<noteq> 1"
  shows "lastProcessedBlock (trackDeposits e s) = k - 1 \<and>
         db (trackDeposits e s) = db s @ saved_records e k"
proof -
  have start: "scan_start s tip = k" using cur nz by (simp add: scan_start_def)
  note ctl = trackDeposits_control [OF tip, of s]
  from trackDeposits_effect [of e s] obtain ns where
    "requested (trackDeposits e s) = requested s @ ns"
    "db (trackDeposits e s) = db s @ concat (map (saved_records e) ns)"
    by blast
  with ctl start ff show ?thesis by simp
qed

subsection \<open>Properties of a tick\<close>

text \<open>
  C2. Range completeness and order: when every block from the scan start to the tip
  completes, the tick requests exactly the blocks from the start to the tip, each once
  and in ascending order, and the cursor ends at the tip (it stays where it was when the
  tip is behind it).
\<close>

theorem trackDeposits_scan_complete:
  assumes "getBlockNumber e = Some tip" and "first_failure e (scan_start s tip) tip = None"
  shows "requested (trackDeposits e s) = requested s @ [scan_start s tip..tip] \<and>
         lastProcessedBlock (trackDeposits e s) = max (scan_start s tip - 1) tip"
  using trackDeposits_control [OF assms(1), of s] assms(2) by simp

text \<open>
  C3. Abort preserves progress: when block \<open>k\<close> is the first of the range that fails
  (the provider rejects it, or one of its deposits has no gas price), the tick stops
  there: blocks after \<open>k\<close> are not requested, the cursor ends at \<open>k - 1\<close>, and the
  error is logged.
\<close>

theorem trackDeposits_abort_keeps_progress:
  assumes "getBlockNumber e = Some tip" and "first_failure e (scan_start s tip) tip = Some k"
  shows "lastProcessedBlock (trackDeposits e s) = k - 1 \<and>
         requested (trackDeposits e s) = requested s @ [scan_start s tip..k] \<and>
         last (logs (trackDeposits e s)) =
           ErrorTrackingDeposits
             (if getBlockWithTransactions e k = BlockRejected then ProviderError else TypeError)"
  using trackDeposits_control [OF assms(1), of s] assms(2) by simp

text \<open>
  C4. Monotonicity: once the cursor is set (non-zero), a tick never moves it backwards.
\<close>

theorem trackDeposits_cursor_monotone:
  "lastProcessedBlock s \<noteq> 0 \<Longrightarrow> lastProcessedBlock s \<le> lastProcessedBlock (trackDeposits e s)"
proof (cases "getBlockNumber e")
  case None
  then show ?thesis by (simp add: trackDeposits_def)
next
  case (Some tip)
  assume nz: "lastProcessedBlock s \<noteq> 0"
  note ctl = trackDeposits_control [OF Some, of s]
  show ?thesis
  proof (cases "first_failure e (scan_start s tip) tip")
    case None
    with ctl nz show ?thesis by (simp add: scan_start_def)
  next
    case (Some k)
    with first_failure_range have "scan_start s tip \<le> k" by blast
    with Some ctl nz show ?thesis by (simp add: scan_start_def)
  qed
qed

text \<open>
  C5. Persistence failures do not block the cursor: the database's answers have no
  influence on where the cursor ends or on which blocks are requested.
\<close>

theorem trackDeposits_cursor_ignores_store:
  "lastProcessedBlock (trackDeposits (e\<lparr>save_ok := f\<rparr>) s) = lastProcessedBlock (trackDeposits e s) \<and>
   requested (trackDeposits (e\<lparr>save_ok := f\<rparr>) s) = requested (trackDeposits e s)"
proof (cases "getBlockNumber e")
  case None
  then show ?thesis by (simp add: trackDeposits_def)
next
  case (Some tip)
  then have tip': "getBlockNumber (e\<lparr>save_ok := f\<rparr>) = Some tip" by simp
  note c1 = trackDeposits_control [OF Some, of s]
  note c2 = trackDeposits_control [OF tip', of s]
  show ?thesis
    using c1 c2 by (cases "first_failure e (scan_start s tip) tip") simp_all
qed

text \<open>
  C8. What a tick writes: the records it appends to the collection are exactly the
  records the database accepted for the blocks it requested, in block order and in the
  order of the transactions; and the texts it hands to the bot are exactly one alert per
  stored record, in the same order, each carrying that record's block number, timestamp,
  hash, fee and input.
\<close>

theorem trackDeposits_store_effect:
  "db (trackDeposits e s) =
     db s @ concat (map (saved_records e) (drop (length (requested s)) (requested (trackDeposits e s)))) \<and>
   telegram (trackDeposits e s) =
     telegram s @ map (record_alert (date_str e)) (drop (length (db s)) (db (trackDeposits e s)))"
  using trackDeposits_effect [of e s] by auto

text \<open>
  C19. What a tick logs: one line per record it built, in block and transaction order
  (\<open>New deposit saved\<close> with the hash when the database accepted it, \<open>Error saving
  deposit\<close> otherwise), followed by one \<open>Error tracking deposits\<close> line exactly when the
  tick aborted: the tip could not be read, a block could not be fetched, or a deposit of
  the first failing block had no gas price.
\<close>

theorem trackDeposits_log_effect:
  "logs (trackDeposits e s) =
     logs s @
     map (record_log e) (concat (map (scan_records e) (drop (length (requested s)) (requested (trackDeposits e s))))) @
     (case getBlockNumber e of
        None \<Rightarrow> [ErrorTrackingDeposits ProviderError]
      | Some tip \<Rightarrow>
          (case first_failure e (scan_start s tip) tip of
             None \<Rightarrow> []
           | Some k \<Rightarrow> [ErrorTrackingDeposits
                         (if getBlockWithTransactions e k = BlockRejected then ProviderError else TypeError)]))"
  using trackDeposits_logs [of e s] by (auto simp: tick_abort_log_def)

text \<open>
  C22. Bounds of a tick: every block it requests lies between the scan start and the tip,
  it requests at most \<open>tip - start + 1\<close> blocks, and the cursor never goes past the
  larger of its old value and the tip.
\<close>

theorem trackDeposits_bounds:
  assumes tip: "getBlockNumber e = Some tip"
  shows "list_all (\<lambda>n. scan_start s tip \<le> n \<and> n \<le> tip)
           (drop (length (requested s)) (requested (trackDeposits e s))) \<and>
         length (drop (length (requested s)) (requested (trackDeposits e s))) \<le> nat (tip - scan_start s tip + 1) \<and>
         lastProcessedBlock (trackDeposits e s) \<le> max (lastProcessedBlock s) tip"
proof -
  have start: "lastProcessedBlock s \<noteq> 0 \<Longrightarrow> scan_start s tip = lastProcessedBlock s + 1"
    and start0: "lastProcessedBlock s = 0 \<Longrightarrow> scan_start s tip = tip"
    by (simp_all add: scan_start_def)
  note ctl = trackDeposits_control [OF tip, of s]
  show ?thesis
  proof (cases "first_failure e (scan_start s tip) tip")
    case None
    with ctl start start0 show ?thesis
      by (cases "lastProcessedBlock s = 0") (auto simp: list_all_iff)
  next
    case (Some k)
    from first_failure_range [OF Some] have k: "scan_start s tip \<le> k" "k \<le> tip" by auto
    with Some ctl start start0 show ?thesis
      by (cases "lastProcessedBlock s = 0") (auto simp: list_all_iff)
  qed
qed

declare scan_records_def [eval_simps] block_records_def [eval_simps]
declare save_and_notify_def [eval_simps] after_save_def [eval_simps] first_failure_def [eval_simps] block_completes_def [eval_simps]

end
