(* ===== verification/Scenarios.thy ===== *)
theory Scenarios
  imports Tracker
begin

text \<open>
  The concrete scenarios of the specification's section 8, as environments of one tick:
  the chain's tip, the transactions of each block (\<open>None\<close> for a block the provider
  fails to return) and the database's answers. They serve as witnesses that the
  hypotheses of the tracker's theorems hold together, and as checks of the whole tick on
  the specification's examples.
\<close>

section \<open>Building blocks\<close>

definition deposit_tx :: "tx_hash \<Rightarrow> tx" where
  "deposit_tx h =
     \<lparr>tx_hash = h, tx_to = Some contractAddress, tx_gasPrice = Some 20000000000,
      tx_input = ''0xa1b2''\<rparr>"

definition transfer_tx :: tx where
  "transfer_tx = \<lparr>tx_hash = ''0xccc'', tx_to = Some ''0x1234'', tx_gasPrice = Some 7, tx_input = ''''\<rparr>"

definition scenario_env ::
  "block_num option \<Rightarrow> (block_num \<Rightarrow> tx list option) \<Rightarrow> (deposit \<Rightarrow> bool) \<Rightarrow> tick_env" where
  "scenario_env tip txs ok =
     \<lparr>getBlockNumber = tip,
      getBlockWithTransactions =
        (\<lambda>n. case txs n of
               None \<Rightarrow> BlockRejected
             | Some ts \<Rightarrow> BlockOk \<lparr>blk_timestamp = 1700000000 + 12 * n, blk_transactions = ts\<rparr>),
      save_ok = ok,
      date_str = int_string\<rparr>"

definition cursor_at :: "block_num \<Rightarrow> backend" where
  "cursor_at n = (init_backend [])\<lparr>lastProcessedBlock := n\<rparr>"

section \<open>The scenarios\<close>

text \<open>Scenario 1: tip 100, cursor unset, no deposit in block 100.\<close>

definition env_1 :: tick_env where
  "env_1 = scenario_env (Some 100) (\<lambda>n. Some [transfer_tx]) (\<lambda>_. True)"

text \<open>Scenario 2: tip 105, cursor 100, one deposit \<open>0xaaa\<close> in block 103.\<close>

definition blocks_2 :: "block_num \<Rightarrow> tx list option" where
  "blocks_2 n = Some (if n = 103 then [transfer_tx, deposit_tx ''0xaaa''] else [transfer_tx])"

definition env_2 :: tick_env where
  "env_2 = scenario_env (Some 105) blocks_2 (\<lambda>_. True)"

text \<open>Scenario 3: as scenario 2, but the provider fails to return block 104.\<close>

definition env_3 :: tick_env where
  "env_3 = scenario_env (Some 105) (\<lambda>n. if n = 104 then None else blocks_2 n) (\<lambda>_. True)"

text \<open>Scenario 4: two deposits in block 106; the database rejects the second.\<close>

definition env_4 :: tick_env where
  "env_4 = scenario_env (Some 106) (\<lambda>n. Some [deposit_tx ''0xd1'', deposit_tx ''0xd2''])
     (\<lambda>d. hash d \<noteq> ''0xd2'')"

text \<open>
  As scenario 3, but the provider answers \<open>null\<close> for block 104 (ethers resolves
  \<open>getBlockWithTransactions\<close> to \<open>null\<close> for a block the node does not have yet).
\<close>

definition env_null :: tick_env where
  "env_null = env_2\<lparr>getBlockWithTransactions :=
     (\<lambda>n. if n = 104 then BlockNull else getBlockWithTransactions env_2 n)\<rparr>"

section \<open>Evaluation\<close>

text \<open>The facts that evaluate a tick on a concrete environment.\<close>

lemmas scenario_eval = eval_simps scenario_env_def deposit_tx_def transfer_tx_def cursor_at_def

lemma to_lower_transfer: "to_lower ''0x1234'' = ''0x1234''"
  by (simp add: to_lower_def lower_char_def)

lemma scan_start_cursor_at [simp]: "n \<noteq> 0 \<Longrightarrow> scan_start (cursor_at n) tip = n + 1"
  by (simp add: scan_start_def cursor_at_def init_backend_def)

section \<open>Witnesses of the tick theorems\<close>

theorem trackDeposits_scan_complete_witness:
  "getBlockNumber env_2 = Some 105 \<and> first_failure env_2 (scan_start (cursor_at 100) 105) 105 = None \<and>
   requested (trackDeposits env_2 (cursor_at 100)) = [101, 102, 103, 104, 105] \<and>
   lastProcessedBlock (trackDeposits env_2 (cursor_at 100)) = 105"
proof -
  have h1: "getBlockNumber env_2 = Some 105"
    by (simp add: env_2_def scenario_env_def)
  have h2: "first_failure env_2 (scan_start (cursor_at 100) 105) 105 = None"
    by (simp add: env_2_def blocks_2_def scenario_eval to_lower_transfer scan_start_def)
  show ?thesis
    using Tracker.trackDeposits_scan_complete [OF h1 h2] h1 h2
    by (simp add: cursor_at_def init_backend_def scan_start_def)
qed

theorem trackDeposits_abort_keeps_progress_witness:
  "getBlockNumber env_3 = Some 105 \<and> first_failure env_3 (scan_start (cursor_at 100) 105) 105 = Some 104 \<and>
   lastProcessedBlock (trackDeposits env_3 (cursor_at 100)) = 103 \<and>
   requested (trackDeposits env_3 (cursor_at 100)) = [101, 102, 103, 104] \<and>
   last (logs (trackDeposits env_3 (cursor_at 100))) = ErrorTrackingDeposits ProviderError"
proof -
  have h1: "getBlockNumber env_3 = Some 105"
    by (simp add: env_3_def scenario_env_def)
  have h2: "first_failure env_3 (scan_start (cursor_at 100) 105) 105 = Some 104"
    by (simp add: env_3_def blocks_2_def scenario_eval to_lower_transfer scan_start_def)
  have h3: "getBlockWithTransactions env_3 104 = BlockRejected"
    by (simp add: env_3_def scenario_env_def)
  show ?thesis
    using Tracker.trackDeposits_abort_keeps_progress [OF h1 h2] h1 h2 h3
    by (simp add: cursor_at_def init_backend_def scan_start_def)
qed

theorem trackDeposits_cursor_monotone_witness:
  "lastProcessedBlock (cursor_at 100) \<noteq> 0 \<and>
   lastProcessedBlock (cursor_at 100) \<le> lastProcessedBlock (trackDeposits env_3 (cursor_at 100))"
proof -
  have h: "lastProcessedBlock (cursor_at 100) \<noteq> 0"
    by (simp add: cursor_at_def init_backend_def scan_start_def)
  show ?thesis
    using Tracker.trackDeposits_cursor_monotone [OF h, of env_3] h by simp
qed

theorem trackDeposits_bounds_witness:
  "getBlockNumber env_2 = Some 105 \<and>
   list_all (\<lambda>n. scan_start (cursor_at 100) 105 \<le> n \<and> n \<le> 105)
     (drop (length (requested (cursor_at 100))) (requested (trackDeposits env_2 (cursor_at 100)))) \<and>
   length (drop (length (requested (cursor_at 100))) (requested (trackDeposits env_2 (cursor_at 100))))
     \<le> nat (105 - scan_start (cursor_at 100) 105 + 1) \<and>
   lastProcessedBlock (trackDeposits env_2 (cursor_at 100)) \<le> max (lastProcessedBlock (cursor_at 100)) 105"
proof -
  have h: "getBlockNumber env_2 = Some 105" by (simp add: env_2_def scenario_env_def)
  show ?thesis using h Tracker.trackDeposits_bounds [OF h, of "cursor_at 100"] by blast
qed

text \<open>The record of scenario 2 and its alert, on a host that renders dates as decimals.\<close>

theorem record_alert_roundtrip_witness:
  "nl \<notin> set ''0xaaa'' \<and> nl \<notin> set (int_string 20000000000) \<and> nl \<notin> set ''0xa1b2'' \<and>
   nl \<notin> set (int_string ((1700000000 + 12 * 103) * 1000 div 1000 * 1000)) \<and>
   parse_alert (record_alert int_string
       \<lparr>blockNumber = 103, blockTimestamp = (1700000000 + 12 * 103) * 1000,
        fee = int_string 20000000000, hash = ''0xaaa'', pubkey = ''0xa1b2''\<rparr>) =
     Some (103, ''0xaaa'', int_string 20000000000, ''0xa1b2'')"
proof -
  have h: "nl \<notin> set ''0xaaa''" "nl \<notin> set ''0xa1b2''" by (simp_all add: nl_def)
  show ?thesis
    using h nl_not_in_int_string
      Notifier.record_alert_roundtrip [of
        "\<lparr>blockNumber = 103, blockTimestamp = (1700000000 + 12 * 103) * 1000,
          fee = int_string 20000000000, hash = ''0xaaa'', pubkey = ''0xa1b2''\<rparr>" int_string]
    by simp
qed

theorem new_deposit_roundtrip_witness:
  "new_deposit 103 \<lparr>blk_timestamp = 1700001236, blk_transactions = []\<rparr> (deposit_tx ''0xaaa'') =
     Inr \<lparr>blockNumber = 103, blockTimestamp = 1700001236000, fee = ''20000000000'',
          hash = ''0xaaa'', pubkey = ''0xa1b2''\<rparr> \<and>
   tx_gasPrice (deposit_tx ''0xaaa'') = Some (parse_int ''20000000000'')"
proof -
  have h: "new_deposit 103 \<lparr>blk_timestamp = 1700001236, blk_transactions = []\<rparr> (deposit_tx ''0xaaa'') =
     Inr \<lparr>blockNumber = 103, blockTimestamp = 1700001236000, fee = ''20000000000'',
          hash = ''0xaaa'', pubkey = ''0xa1b2''\<rparr>"
    by (simp add: scenario_eval)
  show ?thesis
    using Deposit.new_deposit_roundtrip [OF h] h by simp
qed

section \<open>The scenarios of the specification\<close>

text \<open>
  The scenarios of the specification evaluated on the model: checks of the definitions on
  concrete inputs, not properties.
\<close>

text \<open>
  Scenario 1: on the first tick with tip 100 and no deposit in block 100, the
  cursor is set to the tip, only block 100 is requested and nothing is stored or sent.
\<close>

lemma scenario_1_first_tick:
  "lastProcessedBlock (trackDeposits env_1 (init_backend [])) = 100 \<and>
   requested (trackDeposits env_1 (init_backend [])) = [100] \<and>
   db (trackDeposits env_1 (init_backend [])) = [] \<and>
   telegram (trackDeposits env_1 (init_backend [])) = []"
  by (simp add: trackDeposits_def env_1_def scenario_eval to_lower_transfer process_blocks.simps)

text \<open>
  Scenario 2: from cursor 100 with tip 105 and one deposit in block 103, the tick
  stores exactly that record, with the block's number and timestamp, the gas price in
  decimal, the hash and the input, sends one notification and ends at 105.
\<close>

lemma scenario_2_one_deposit:
  "lastProcessedBlock (trackDeposits env_2 (cursor_at 100)) = 105 \<and>
   db (trackDeposits env_2 (cursor_at 100)) =
     [\<lparr>blockNumber = 103, blockTimestamp = 1700001236000, fee = ''20000000000'',
       hash = ''0xaaa'', pubkey = ''0xa1b2''\<rparr>] \<and>
   length (telegram (trackDeposits env_2 (cursor_at 100))) = 1"
  by (simp add: trackDeposits_def env_2_def blocks_2_def scenario_eval to_lower_transfer
      process_blocks.simps)

text \<open>
  Scenario 3: as scenario 2, but block 104 cannot be fetched: the cursor ends at
  103, block 103's record is stored, block 105 is not requested, and the next tick
  (with the provider recovered) resumes at 104 and completes the range without storing
  the record twice.
\<close>

lemma scenario_3_fetch_failure:
  "lastProcessedBlock (trackDeposits env_3 (cursor_at 100)) = 103 \<and>
   map hash (db (trackDeposits env_3 (cursor_at 100))) = [''0xaaa''] \<and>
   requested (trackDeposits env_3 (cursor_at 100)) = [101, 102, 103, 104] \<and>
   requested (trackDeposits env_2 (trackDeposits env_3 (cursor_at 100))) =
     [101, 102, 103, 104, 104, 105] \<and>
   lastProcessedBlock (trackDeposits env_2 (trackDeposits env_3 (cursor_at 100))) = 105 \<and>
   map hash (db (trackDeposits env_2 (trackDeposits env_3 (cursor_at 100)))) = [''0xaaa'']"
  by (simp add: trackDeposits_def env_2_def env_3_def blocks_2_def scenario_eval
      to_lower_transfer process_blocks.simps)

text \<open>
  Scenario 4: two deposits in block 106, the database rejects the second: the
  cursor still advances to 106, only the first record is stored, one save error is
  logged and one notification is sent.
\<close>

lemma scenario_4_save_failure:
  "lastProcessedBlock (trackDeposits env_4 (cursor_at 105)) = 106 \<and>
   map hash (db (trackDeposits env_4 (cursor_at 105))) = [''0xd1''] \<and>
   logs (trackDeposits env_4 (cursor_at 105)) = [NewDepositSaved ''0xd1'', ErrorSavingDeposit] \<and>
   length (telegram (trackDeposits env_4 (cursor_at 105))) = 1"
  by (simp add: trackDeposits_def env_4_def scenario_eval process_blocks.simps)

text \<open>
  A block the provider answers with \<open>null\<close>: the tick stores the deposit of block
  103, then reading \<open>blockDetails.transactions\<close> of \<open>null\<close> throws a \<open>TypeError\<close>,
  which the outer \<open>catch\<close> logs; the cursor stays at 103 and block 105 is not requested.
  The abort is logged as a \<open>TypeError\<close>, not as a provider error.
\<close>

lemma scenario_null_block:
  "lastProcessedBlock (trackDeposits env_null (cursor_at 100)) = 103 \<and>
   requested (trackDeposits env_null (cursor_at 100)) = [101, 102, 103, 104] \<and>
   map hash (db (trackDeposits env_null (cursor_at 100))) = [''0xaaa''] \<and>
   logs (trackDeposits env_null (cursor_at 100)) = [NewDepositSaved ''0xaaa'', ErrorTrackingDeposits TypeError]"
  by (simp add: trackDeposits_def env_null_def env_2_def blocks_2_def scenario_eval to_lower_transfer
      process_blocks.simps)

end
