(* ===== verification/Scheduler.thy ===== *)
theory Scheduler
  imports Tracker
begin

text \<open>
  \<open>setInterval(trackDeposits, 5 * 1000)\<close> (src/backend/index.js, line 132) starts a tick
  every five seconds. When each tick has finished before the next one fires, the ticks
  run one after the other on the shared state: \<open>run_ticks\<close>, one environment per
  tick. (Overlapping ticks are the subject of the interleaving model.)
\<close>

fun run_ticks :: "tick_env list \<Rightarrow> backend \<Rightarrow> backend" where
  "run_ticks [] s = s"
| "run_ticks (e # es) s = run_ticks es (trackDeposits e s)"

lemma run_ticks_requests_above:
  "0 < m \<Longrightarrow> m \<le> lastProcessedBlock s \<Longrightarrow>
     \<exists>ns. requested (run_ticks es s) = requested s @ ns \<and> (\<forall>n\<in>set ns. m < n) \<and>
       m \<le> lastProcessedBlock (run_ticks es s)"
proof (induction es arbitrary: s)
  case Nil
  then show ?case by simp
next
  case (Cons e es)
  from trackDeposits_requests_above [OF Cons.prems, of e] obtain ns where
    ns: "requested (trackDeposits e s) = requested s @ ns" "\<forall>n\<in>set ns. m < n"
      "m \<le> lastProcessedBlock (trackDeposits e s)"
    by blast
  from Cons.IH [OF Cons.prems(1) ns(3)] ns(1,2) show ?case
    by fastforce
qed

lemma run_ticks_appends:
  "\<exists>ns rs. requested (run_ticks es s) = requested s @ ns \<and> db (run_ticks es s) = db s @ rs \<and>
     (\<forall>r\<in>set rs. blockNumber r \<in> set ns)"
proof (induction es arbitrary: s)
  case Nil
  then show ?case by simp
next
  case (Cons e es)
  from trackDeposits_effect [of e s] obtain ns1 where
    ns1: "requested (trackDeposits e s) = requested s @ ns1"
      "db (trackDeposits e s) = db s @ concat (map (saved_records e) ns1)"
    by blast
  from Cons.IH [of "trackDeposits e s"] obtain ns2 rs2 where
    ns2: "requested (run_ticks es (trackDeposits e s)) = requested (trackDeposits e s) @ ns2"
      "db (run_ticks es (trackDeposits e s)) = db (trackDeposits e s) @ rs2"
      "\<forall>r\<in>set rs2. blockNumber r \<in> set ns2"
    by blast
  have "\<forall>r\<in>set (concat (map (saved_records e) ns1)). blockNumber r \<in> set ns1"
    by (auto dest: saved_records_blockNumber)
  with ns1 ns2 show ?case
    by (intro exI [of _ "ns1 @ ns2"] exI [of _ "concat (map (saved_records e) ns1) @ rs2"]) auto
qed

text \<open>A tick that completes its range stores the accepted records of every block of it.\<close>

lemma trackDeposits_complete:
  assumes tip: "getBlockNumber e = Some tip" and ok: "first_failure e (scan_start s tip) tip = None"
  shows "requested (trackDeposits e s) = requested s @ [scan_start s tip..tip] \<and>
         lastProcessedBlock (trackDeposits e s) = max (scan_start s tip - 1) tip \<and>
         db (trackDeposits e s) = db s @ concat (map (saved_records e) [scan_start s tip..tip])"
proof -
  from trackDeposits_control [OF tip, of s] ok have
    req: "requested (trackDeposits e s) = requested s @ [scan_start s tip..tip]" and
    cur: "lastProcessedBlock (trackDeposits e s) = max (scan_start s tip - 1) tip"
    by simp_all
  from trackDeposits_effect [of e s] req show ?thesis
    using cur by auto
qed

section \<open>Runs that never recover\<close>

text \<open>
  C11. A failure that does not go away wedges the tracker: when block \<open>k\<close> is the first
  failing block of a tick (for instance because one of its deposits has no gas price, so
  that \<open>deposit.gasPrice.toString()\<close> throws outside the inner \<open>try\<close>), every later
  tick on the same chain stops at the same block: the cursor stays at \<open>k - 1\<close> forever,
  and each tick stores again the accepted records of block \<open>k\<close> that precede the failing
  transaction.
\<close>

theorem run_ticks_wedged:
  assumes tip: "getBlockNumber e = Some tip"
    and ff: "first_failure e (scan_start s tip) tip = Some k" and nz: "k \<noteq> 1"
  shows "lastProcessedBlock (run_ticks (replicate (Suc n) e) s) = k - 1 \<and>
         db (run_ticks (replicate (Suc n) e) s) =
           db (trackDeposits e s) @ concat (replicate n (saved_records e k))"
proof -
  from first_failure_range [OF ff] have "k \<le> tip" "\<not> block_completes e k" by auto
  then have ffk: "first_failure e k tip = Some k" by (simp add: first_failure_rec)
  have c1: "lastProcessedBlock (trackDeposits e s) = k - 1"
    using trackDeposits_control [OF tip, of s] ff by simp
  have "lastProcessedBlock (run_ticks (replicate n e) t) = k - 1 \<and>
        db (run_ticks (replicate n e) t) = db t @ concat (replicate n (saved_records e k))"
    if "lastProcessedBlock t = k - 1" for t
    using that
  proof (induction n arbitrary: t)
    case 0
    then show ?case by simp
  next
    case (Suc n)
    from trackDeposits_stuck_at [OF tip ffk Suc.prems nz] Suc.IH [of "trackDeposits e t"]
    show ?case by simp
  qed
  from this [OF c1] show ?thesis by simp
qed

text \<open>
  C12. Restarts lose blocks: the cursor is not persisted, so after a restart the first tick
  jumps to the current tip, and no later tick ever requests a block below that tip,
  whatever the previous process had processed.
\<close>

theorem restart_never_rescans:
  assumes "getBlockNumber e = Some tip" and "2 \<le> tip"
  shows "\<forall>n \<in> set (requested (run_ticks (e # es) (init_backend c))). tip \<le> n"
proof -
  let ?t = "trackDeposits e (init_backend c)"
  have start: "scan_start (init_backend c) tip = tip"
    by (simp add: scan_start_def init_backend_def)
  from trackDeposits_requests_from_start [OF assms(1), of "init_backend c"] start
  obtain stop where first: "requested ?t = [tip..stop]" and cur: "tip - 1 \<le> lastProcessedBlock ?t"
    by (auto simp: init_backend_def)
  from assms(2) cur have "0 < tip - 1" by simp
  from run_ticks_requests_above [OF this cur, of es] obtain ns where
    "requested (run_ticks es ?t) = requested ?t @ ns" "\<forall>n\<in>set ns. tip - 1 < n"
    by blast
  with first show ?thesis by auto
qed

text \<open>
  C15. Silent loss of a rejected deposit (sections 8 and 9 of the specification): when a
  tick completes every block of its range, a record of one of those blocks that the
  database rejects is not stored, the cursor passes its block, and no later tick requests
  that block again, so the record never reaches the store in that tick or any later one.
\<close>

theorem rejected_deposit_lost:
  assumes tip: "getBlockNumber e = Some tip"
    and ok: "first_failure e (scan_start s tip) tip = None"
    and n: "scan_start s tip \<le> n" "n \<le> tip" "0 < n"
    and r: "r \<in> set (scan_records e n)" "\<not> save_ok e r"
  shows "r \<notin> set (drop (length (db s)) (db (run_ticks (e # es) s))) \<and>
         (\<forall>m\<in>set (drop (length (requested (trackDeposits e s))) (requested (run_ticks (e # es) s))). n < m)"
proof -
  let ?t = "trackDeposits e s"
  have bn: "blockNumber r = n" using r(1) by (rule scan_records_blockNumber)
  from trackDeposits_complete [OF tip ok] have
    cur: "lastProcessedBlock ?t = max (scan_start s tip - 1) tip" and
    db1: "db ?t = db s @ concat (map (saved_records e) [scan_start s tip..tip])"
    by simp_all
  have new1: "r \<notin> set (concat (map (saved_records e) [scan_start s tip..tip]))"
    using r(2) by (auto dest: saved_records_blockNumber)
  from cur n have "n \<le> lastProcessedBlock ?t" by simp
  from run_ticks_requests_above [OF n(3) this, of es] obtain ns where
    ns: "requested (run_ticks es ?t) = requested ?t @ ns" "\<forall>m\<in>set ns. n < m"
    by blast
  from run_ticks_appends [of es ?t] obtain ns2 rs where
    rs: "requested (run_ticks es ?t) = requested ?t @ ns2" "db (run_ticks es ?t) = db ?t @ rs"
      "\<forall>r\<in>set rs. blockNumber r \<in> set ns2"
    by blast
  from ns(1) rs(1) have "ns2 = ns" by simp
  with rs(3) ns(2) bn have "r \<notin> set rs" by fastforce
  with new1 db1 rs(2) ns show ?thesis by simp
qed

text \<open>
  C23. The records the tracker writes have the types of the data model: if every stored
  record has a decimal-as-text fee and a whole-second timestamp, this stays so after any
  sequence of ticks (whatever the provider and the database answer).
\<close>

theorem run_ticks_wf_records:
  "list_all wf_record (db s) \<Longrightarrow> list_all wf_record (db (run_ticks es s))"
proof (induction es arbitrary: s)
  case Nil
  then show ?case by simp
next
  case (Cons e es)
  from trackDeposits_effect [of e s] obtain ns where
    "db (trackDeposits e s) = db s @ concat (map (saved_records e) ns)"
    by blast
  with Cons.prems have "list_all wf_record (db (trackDeposits e s))"
    by (auto simp: list_all_iff intro: saved_records_wf)
  then show ?case by (simp add: Cons.IH)
qed

section \<open>The cursor and the store are not idempotent\<close>

text \<open>
  C13. The cursor value \<open>0\<close> means both ``unset'' and ``block 0 processed'': when the
  tip is block 1 on the first tick (cursor unset) and block 1 cannot be fetched or
  processed, the tick aborts and leaves the cursor at \<open>0\<close>; the next tick, with tip
  \<open>tip \<ge> 2\<close>, takes the cursor for unset and starts at the tip. The two ticks request
  exactly blocks \<open>1\<close> and \<open>tip\<close>, and no later tick ever requests a block strictly
  between them.
\<close>

theorem cursor_zero_reinitialises:
  assumes tip1: "getBlockNumber e1 = Some 1" and unset: "lastProcessedBlock s = 0"
    and down: "\<not> block_completes e1 1"
    and tip2: "getBlockNumber e2 = Some tip" and big: "2 \<le> tip"
  shows "lastProcessedBlock (trackDeposits e1 s) = 0 \<and>
         requested (run_ticks [e1, e2] s) = requested s @ [1, tip] \<and>
         list_all (\<lambda>n. n = 1 \<or> tip \<le> n)
           (drop (length (requested s)) (requested (run_ticks (e1 # e2 # es) s)))"
proof -
  let ?t1 = "trackDeposits e1 s"
  let ?t2 = "trackDeposits e2 ?t1"
  have st1: "scan_start s 1 = 1" using unset by (simp add: scan_start_def)
  have ff1: "first_failure e1 1 1 = Some 1" using down by (simp add: first_failure_rec)
  from trackDeposits_control [OF tip1, of s] st1 ff1 have
    r1: "requested ?t1 = requested s @ [1]" and c1: "lastProcessedBlock ?t1 = 0"
    by simp_all
  have st2: "scan_start ?t1 tip = tip" using c1 by (simp add: scan_start_def)
  have r2: "requested ?t2 = requested ?t1 @ [tip] \<and> tip - 1 \<le> lastProcessedBlock ?t2"
  proof (cases "first_failure e2 tip tip")
    case None
    with trackDeposits_control [OF tip2, of ?t1] st2 show ?thesis by simp
  next
    case (Some k)
    with first_failure_range [OF Some] have "k = tip" by simp
    with Some trackDeposits_control [OF tip2, of ?t1] st2 show ?thesis by simp
  qed
  from big r2 have "0 < tip - 1" "tip - 1 \<le> lastProcessedBlock ?t2" by simp_all
  from run_ticks_requests_above [OF this, of es] obtain ns where
    ns: "requested (run_ticks es ?t2) = requested ?t2 @ ns" "\<forall>n\<in>set ns. tip - 1 < n"
    by blast
  from ns(2) have "list_all (\<lambda>n. n = 1 \<or> tip \<le> n) ns" by (auto simp: list_all_iff)
  with r1 r2 c1 ns(1) show ?thesis by simp
qed

text \<open>
  C14. Re-processing stores duplicates (scenario 5 of the specification): when a tick
  completes its range and a block of the range has an accepted record whose hash is
  already in the collection (because the block was processed before and the cursor was
  moved back, or two ticks overlapped), the tick stores it again: the hash now occurs at
  least twice and the collection no longer has unique hashes. The store is not idempotent.
\<close>

theorem reprocessing_duplicates:
  assumes tip: "getBlockNumber e = Some tip"
    and ok: "first_failure e (scan_start s tip) tip = None"
    and n: "scan_start s tip \<le> n" "n \<le> tip"
    and r: "r \<in> set (saved_records e n)" and stored: "hash r \<in> set (map hash (db s))"
  shows "2 \<le> hash_count (db (trackDeposits e s)) (hash r) \<and>
         \<not> unique_hashes (db (trackDeposits e s))"
proof -
  from n r have "r \<in> set (concat (map (saved_records e) [scan_start s tip..tip]))"
    by auto
  then have "hash r \<in> set (map hash (concat (map (saved_records e) [scan_start s tip..tip])))"
    by (metis list.set_map imageI)
  with hash_count_dup [OF stored this] trackDeposits_complete [OF tip ok] show ?thesis
    by simp
qed

end
