(* ===== verification/Async.thy ===== *)
theory Async
  imports Scheduler
begin

text \<open>
  \<open>trackDeposits\<close> is an \<open>async\<close> function: it runs until an \<open>await\<close>, gives control
  back to the event loop, and resumes when the awaited promise settles. It awaits three
  things: \<open>getBlockNumber()\<close> (line 73), \<open>getBlockWithTransactions(currentBlock)\<close> (line
  87) and \<open>newDeposit.save()\<close> (line 109). A suspended invocation is a \<open>task\<close>: the
  await it waits at, with the local variables live there (\<open>latestBlockNumber\<close>,
  \<open>currentBlock\<close>, \<open>blockDetails\<close>, the current deposit, the deposits still to do and
  \<open>newDeposit\<close>). \<open>resume\<close> runs the code between two awaits, given the settled
  value (\<open>None\<close> for a rejection, which reaches the outer \<open>catch\<close>), on the shared
  state. \<open>setInterval\<close> (line 132) starts a new invocation every five seconds whether or
  not the previous one has finished, so several tasks can be in flight and the event loop
  resumes them in whatever order their promises settle: \<open>sched_step\<close> with
  \<open>guard = False\<close> is the code; \<open>guard = True\<close> is the single-flight guard that section 5
  of the specification requires (a tick that fires while another is in flight is
  skipped).
\<close>

section \<open>Suspended invocations\<close>

datatype task =
    AwaitTip
  | AwaitBlock block_num block_num
  | AwaitSave block_num block_num block tx "tx list" deposit

datatype answer = TipAnswer "block_num option" | BlockAnswer block_reply | SaveAnswer bool

definition request_block :: "block_num \<Rightarrow> block_num \<Rightarrow> backend \<Rightarrow> task option \<times> backend" where
  "request_block latest cur s = (Some (AwaitBlock latest cur), s\<lparr>requested := requested s @ [cur]\<rparr>)"

definition advance :: "block_num \<Rightarrow> block_num \<Rightarrow> backend \<Rightarrow> task option \<times> backend" where
  "advance latest cur s =
     (let s' = s\<lparr>lastProcessedBlock := cur\<rparr>
      in if cur + 1 \<le> latest then request_block latest (cur + 1) s' else (None, s'))"

fun next_deposit :: "block_num \<Rightarrow> block_num \<Rightarrow> block \<Rightarrow> tx list \<Rightarrow> backend \<Rightarrow> task option \<times> backend" where
  "next_deposit latest cur b [] s = advance latest cur s"
| "next_deposit latest cur b (d # ds) s =
     (case new_deposit cur b d of
        Inl err \<Rightarrow> (None, add_log (ErrorTrackingDeposits err) s)
      | Inr r \<Rightarrow> (Some (AwaitSave latest cur b d ds r), s))"

definition start_scan :: "block_num \<Rightarrow> backend \<Rightarrow> task option \<times> backend" where
  "start_scan latest s =
     (let s1 = (if lastProcessedBlock s = 0 then s\<lparr>lastProcessedBlock := latest - 1\<rparr> else s);
          cur = lastProcessedBlock s1 + 1
      in if cur \<le> latest then request_block latest cur s1 else (None, s1))"

fun resume :: "(int \<Rightarrow> string) \<Rightarrow> task \<Rightarrow> answer \<Rightarrow> backend \<Rightarrow> task option \<times> backend" where
  "resume fmt AwaitTip (TipAnswer None) s = (None, add_log (ErrorTrackingDeposits ProviderError) s)"
| "resume fmt AwaitTip (TipAnswer (Some latest)) s = start_scan latest s"
| "resume fmt (AwaitBlock latest cur) (BlockAnswer BlockRejected) s =
     (None, add_log (ErrorTrackingDeposits ProviderError) s)"
| "resume fmt (AwaitBlock latest cur) (BlockAnswer BlockNull) s =
     (None, add_log (ErrorTrackingDeposits TypeError) s)"
| "resume fmt (AwaitBlock latest cur) (BlockAnswer (BlockOk b)) s =
     next_deposit latest cur b (deposits_of contractAddress (blk_transactions b)) s"
| "resume fmt (AwaitSave latest cur b d ds r) (SaveAnswer ok) s =
     next_deposit latest cur b ds (after_save fmt ok cur b d r s)"
| "resume fmt t a s = (Some t, s)"

section \<open>One invocation without interference\<close>

text \<open>
  When nothing else runs between its awaits, an invocation receives the answers of one
  environment: \<open>drive\<close> resumes it with them, at most \<open>n\<close> times.
\<close>

fun env_answer :: "tick_env \<Rightarrow> task \<Rightarrow> answer" where
  "env_answer e AwaitTip = TipAnswer (getBlockNumber e)"
| "env_answer e (AwaitBlock latest cur) = BlockAnswer (getBlockWithTransactions e cur)"
| "env_answer e (AwaitSave latest cur b d ds r) = SaveAnswer (save_ok e r)"

fun drive :: "tick_env \<Rightarrow> nat \<Rightarrow> task option \<times> backend \<Rightarrow> task option \<times> backend" where
  "drive e 0 x = x"
| "drive e (Suc n) (None, s) = (None, s)"
| "drive e (Suc n) (Some t, s) = drive e n (resume (date_str e) t (env_answer e t) s)"

definition finish :: "error option \<times> backend \<Rightarrow> backend" where
  "finish r = (case r of (None, s) \<Rightarrow> s | (Some err, s) \<Rightarrow> add_log (ErrorTrackingDeposits err) s)"

text \<open>
  The number of resumptions an uninterrupted invocation needs: the tip, then one per
  block it requests and one per record it builds (each waits for its \<open>save\<close>).
\<close>

definition tick_fuel :: "tick_env \<Rightarrow> backend \<Rightarrow> nat" where
  "tick_fuel e s =
     (let ns = drop (length (requested s)) (requested (trackDeposits e s))
      in Suc (length ns + length (concat (map (scan_records e) ns))))"

section \<open>The event loop\<close>

record conc_state =
  shared :: backend
  inflight :: "task list"

datatype sched_event = Fire | Resume nat answer

definition remove_nth :: "nat \<Rightarrow> 'a list \<Rightarrow> 'a list" where
  "remove_nth i xs = take i xs @ drop (Suc i) xs"

definition resume_task :: "(int \<Rightarrow> string) \<Rightarrow> nat \<Rightarrow> answer \<Rightarrow> conc_state \<Rightarrow> conc_state" where
  "resume_task fmt i a c =
     (if i < length (inflight c) then
        (case resume fmt (inflight c ! i) a (shared c) of
           (None, s') \<Rightarrow> \<lparr>shared = s', inflight = remove_nth i (inflight c)\<rparr>
         | (Some t, s') \<Rightarrow> \<lparr>shared = s', inflight = (inflight c)[i := t]\<rparr>)
      else c)"

fun sched_step :: "bool \<Rightarrow> (int \<Rightarrow> string) \<Rightarrow> conc_state \<Rightarrow> sched_event \<Rightarrow> conc_state" where
  "sched_step guard fmt c Fire =
     (if guard \<and> inflight c \<noteq> [] then c else c\<lparr>inflight := inflight c @ [AwaitTip]\<rparr>)"
| "sched_step guard fmt c (Resume i a) = resume_task fmt i a c"

definition sched_run :: "bool \<Rightarrow> (int \<Rightarrow> string) \<Rightarrow> conc_state \<Rightarrow> sched_event list \<Rightarrow> conc_state" where
  "sched_run guard fmt c evs = foldl (sched_step guard fmt) c evs"

section \<open>Lemmas\<close>

lemma drive_None [simp]: "drive e n (None, s) = (None, s)"
  by (cases n) simp_all

lemma drive_add: "drive e (n + m) x = drive e m (drive e n x)"
proof (induction e n x rule: drive.induct)
  case (1 e x)
  then show ?case by simp
next
  case (2 e n s)
  then show ?case by simp
next
  case (3 e n t s)
  then show ?case by simp
qed

lemma drive_finished:
  "drive e n x = (None, y) \<Longrightarrow> n \<le> m \<Longrightarrow> drive e m x = (None, y)"
  using drive_add [of e n "m - n" x] by simp

lemma drive_next_deposit:
  "drive e (length (block_records cur b ds)) (next_deposit latest cur b ds s) =
     (case process_deposits e cur b ds s of
        (Some err, s1) \<Rightarrow> (None, add_log (ErrorTrackingDeposits err) s1)
      | (None, s1) \<Rightarrow> advance latest cur s1)"
proof (induction ds arbitrary: s)
  case Nil
  show ?case by (simp add: block_records_def)
next
  case (Cons d ds)
  show ?case
  proof (cases "tx_gasPrice d")
    case None
    then show ?thesis by (simp add: block_records_def has_gas_price_def new_deposit_def)
  next
    case (Some g)
    then obtain r where r: "new_deposit cur b d = Inr r" by (simp add: new_deposit_def)
    have len: "length (block_records cur b (d # ds)) = Suc (length (block_records cur b ds))"
      using Some r by (simp add: block_records_def has_gas_price_def)
    show ?thesis
      using r Cons.IH [of "save_and_notify e cur b d r s"] by (simp add: len save_and_notify_def)
  qed
qed

lemma drive_request_block:
  "cur \<le> latest \<Longrightarrow> process_blocks e latest cur s = (r, s') \<Longrightarrow>
     drive e (length (drop (length (requested s)) (requested s')) +
              length (concat (map (scan_records e) (drop (length (requested s)) (requested s')))))
       (request_block latest cur s) = (None, finish (r, s'))"
proof (induction e latest cur s arbitrary: r s' rule: process_blocks.induct)
  case (1 e latest cur s)
  let ?s0 = "s\<lparr>requested := requested s @ [cur]\<rparr>"
  from "1.prems"(2,1) show ?case
  proof (cases rule: process_blocks_iteration)
    case fetch_error
    then show ?thesis
      by (auto simp: request_block_def finish_def)
  next
    case (deposit_error b)
    have "requested s' = requested s @ [cur]"
      using process_deposits_frame [OF deposit_error(4)] by simp
    with deposit_error drive_next_deposit [of e cur b "deposits_of contractAddress (blk_transactions b)"
        latest ?s0]
    show ?thesis
      by (simp add: request_block_def finish_def scan_records_block)
  next
    case (next_block b s1)
    let ?ds = "deposits_of contractAddress (blk_transactions b)"
    have fr: "requested s1 = requested s @ [cur]"
      using process_deposits_frame [OF next_block(3)] by simp
    have step: "drive e (Suc (length (block_records cur b ?ds)) + m) (request_block latest cur s) =
        drive e m (advance latest cur s1)" for m
      using next_block(1,3) drive_next_deposit [of e cur b ?ds latest ?s0]
      by (simp only: drive_add) (simp add: request_block_def)
    show ?thesis
    proof (cases "cur + 1 \<le> latest")
      case True
      note IH = "1.IH" [OF "1.prems"(1) refl next_block(1) next_block(3) [symmetric] refl True next_block(4)]
      from True step [of "length (drop (length (requested (s1\<lparr>lastProcessedBlock := cur\<rparr>))) (requested s')) +
            length (concat (map (scan_records e) (drop (length (requested (s1\<lparr>lastProcessedBlock := cur\<rparr>))) (requested s'))))"]
        IH fr next_block(1) process_blocks_effect [OF next_block(4)]
      show ?thesis
        by (auto simp: advance_def scan_records_block ac_simps)
    next
      case False
      then have "r = None \<and> s' = s1\<lparr>lastProcessedBlock := cur\<rparr>"
        using next_block(4) by (simp add: process_blocks.simps)
      with False step [of 0] fr next_block(1) show ?thesis
        by (simp add: advance_def finish_def scan_records_block)
    qed
  qed
qed

lemma drive_tick_fuel: "drive e (tick_fuel e s) (Some AwaitTip, s) = (None, trackDeposits e s)"
proof (cases "getBlockNumber e")
  case None
  then show ?thesis by (simp add: trackDeposits_def tick_fuel_def)
next
  case (Some latest)
  define s1 where "s1 = (if lastProcessedBlock s = 0 then s\<lparr>lastProcessedBlock := latest - 1\<rparr> else s)"
  define cur where "cur = lastProcessedBlock s1 + 1"
  obtain r s' where pb: "process_blocks e latest cur s1 = (r, s')" by fastforce
  have td: "trackDeposits e s = finish (r, s')"
    using Some pb by (simp add: trackDeposits_def finish_def Let_def s1_def cur_def split: option.splits)
  have rq: "requested (trackDeposits e s) = requested s'"
    using td by (simp add: finish_def split: option.splits)
  have req: "requested s1 = requested s" by (simp add: s1_def)
  have start: "start_scan latest s = (if cur \<le> latest then request_block latest cur s1 else (None, s1))"
    by (simp add: start_scan_def Let_def s1_def cur_def)
  show ?thesis
  proof (cases "cur \<le> latest")
    case True
    from drive_request_block [OF True pb] td rq req True show ?thesis
      by (simp add: tick_fuel_def start Some)
  next
    case False
    with pb have "r = None \<and> s' = s1" by (simp add: process_blocks.simps)
    with False td rq req show ?thesis
      by (simp add: tick_fuel_def start Some finish_def)
  qed
qed

end
