(* ===== verification/Findings.thy ===== *)
theory Findings
  imports Scenarios Async
begin

text \<open>
  Concrete runs that exhibit what the model shows about the code beyond the
  specification's scenarios: a block the tracker can never get past, the ambiguity of the
  cursor value \<open>0\<close>, and the duplicate records produced by re-processing.
\<close>

section \<open>Environments\<close>

text \<open>A deposit transaction without a gas price, next to an ordinary deposit.\<close>

definition no_gas_tx :: tx where
  "no_gas_tx = \<lparr>tx_hash = ''0xbad'', tx_to = Some contractAddress, tx_gasPrice = None, tx_input = ''''\<rparr>"

definition env_wedge :: tick_env where
  "env_wedge = scenario_env (Some 106)
     (\<lambda>n. Some (if n = 106 then [deposit_tx ''0xd1'', no_gas_tx] else [transfer_tx])) (\<lambda>_. True)"

text \<open>A chain whose tip is block 1 (then 0), the block not yet available; and a later tip.\<close>

definition env_tip1_down :: tick_env where
  "env_tip1_down = scenario_env (Some 1) (\<lambda>n. None) (\<lambda>_. True)"

definition env_tip0_down :: tick_env where
  "env_tip0_down = scenario_env (Some 0) (\<lambda>n. None) (\<lambda>_. True)"

definition env_tip10 :: tick_env where
  "env_tip10 = scenario_env (Some 10) (\<lambda>n. Some [transfer_tx]) (\<lambda>_. True)"

text \<open>
  Two overlapping ticks: block 101 holds a deposit; both ticks read tip 103 while the
  cursor is still 100. \<open>race_first\<close> lets the first tick finish the range while the
  second waits for block 101; \<open>race_second\<close> then resumes the second tick.
\<close>

definition race_block :: "block_num \<Rightarrow> block" where
  "race_block n =
     \<lparr>blk_timestamp = 1700000000 + 12 * n,
      blk_transactions = (if n = 101 then [deposit_tx ''0xaaa''] else [transfer_tx])\<rparr>"

definition race_start :: conc_state where
  "race_start = \<lparr>shared = cursor_at 100, inflight = []\<rparr>"

definition race_first :: "sched_event list" where
  "race_first =
     [Fire, Resume 0 (TipAnswer (Some 103)), Fire, Resume 1 (TipAnswer (Some 103)),
      Resume 0 (BlockAnswer (BlockOk (race_block 101))), Resume 0 (SaveAnswer True),
      Resume 0 (BlockAnswer (BlockOk (race_block 102))), Resume 0 (BlockAnswer (BlockOk (race_block 103)))]"

definition race_second :: "sched_event list" where
  "race_second = [Resume 0 (BlockAnswer (BlockOk (race_block 101))), Resume 0 (SaveAnswer True)]"

text \<open>The record of the rejected deposit of scenario 4.\<close>

definition rejected_d2 :: deposit where
  "rejected_d2 =
     \<lparr>blockNumber = 106, blockTimestamp = (1700000000 + 12 * 106) * 1000, fee = int_string 20000000000,
      hash = ''0xd2'', pubkey = ''0xa1b2''\<rparr>"

text \<open>The record of scenario 2's deposit, as the tracker stores it.\<close>

definition stored_aaa :: deposit where
  "stored_aaa =
     \<lparr>blockNumber = 103, blockTimestamp = 1700001236000, fee = int_string 20000000000,
      hash = ''0xaaa'', pubkey = ''0xa1b2''\<rparr>"

text \<open>Scenario 5: the state after scenario 2 with the cursor moved back to 100.\<close>

definition rewound_2 :: backend where
  "rewound_2 = (trackDeposits env_2 (cursor_at 100))\<lparr>lastProcessedBlock := 100\<rparr>"

lemmas race_eval =
  sched_run_def resume_task_def remove_nth_def start_scan_def request_block_def advance_def
  race_block_def race_start_def race_first_def race_second_def

section \<open>Witnesses\<close>

theorem rejected_deposit_lost_witness:
  "getBlockNumber env_4 = Some 106 \<and>
   first_failure env_4 (scan_start (cursor_at 105) 106) 106 = None \<and>
   scan_start (cursor_at 105) 106 \<le> 106 \<and> (106::int) \<le> 106 \<and> (0::int) < 106 \<and>
   rejected_d2 \<in> set (scan_records env_4 106) \<and> \<not> save_ok env_4 rejected_d2 \<and>
   rejected_d2 \<notin> set (drop (length (db (cursor_at 105))) (db (run_ticks [env_4, env_4] (cursor_at 105)))) \<and>
   list_all (\<lambda>m. 106 < m) (drop (length (requested (trackDeposits env_4 (cursor_at 105))))
     (requested (run_ticks [env_4, env_4] (cursor_at 105))))"
proof -
  have h: "getBlockNumber env_4 = Some 106 \<and>
    first_failure env_4 (scan_start (cursor_at 105) 106) 106 = None \<and>
    scan_start (cursor_at 105) 106 \<le> 106 \<and>
    rejected_d2 \<in> set (scan_records env_4 106) \<and> \<not> save_ok env_4 rejected_d2"
    by (simp add: env_4_def rejected_d2_def scenario_eval scan_start_def)
  then show ?thesis
    using Scheduler.rejected_deposit_lost [of env_4 106 "cursor_at 105" 106 rejected_d2 "[env_4]"]
    by (simp add: list_all_iff)
qed

theorem run_ticks_wf_records_witness:
  "list_all wf_record (db (cursor_at 100)) \<and>
   list_all wf_record (db (run_ticks [env_2, env_4] (cursor_at 100)))"
proof -
  have h: "list_all wf_record (db (cursor_at 100))" by (simp add: cursor_at_def init_backend_def)
  show ?thesis using h Scheduler.run_ticks_wf_records [OF h, of "[env_2, env_4]"] by blast
qed

theorem run_ticks_wedged_witness:
  "getBlockNumber env_wedge = Some 106 \<and>
   first_failure env_wedge (scan_start (cursor_at 105) 106) 106 = Some 106 \<and> (106::int) \<noteq> 1 \<and>
   lastProcessedBlock (run_ticks (replicate 3 env_wedge) (cursor_at 105)) = 105 \<and>
   map hash (db (run_ticks (replicate 3 env_wedge) (cursor_at 105))) = [''0xd1'', ''0xd1'', ''0xd1'']"
proof -
  have h1: "getBlockNumber env_wedge = Some 106"
    by (simp add: env_wedge_def scenario_env_def)
  have h2: "first_failure env_wedge (scan_start (cursor_at 105) 106) 106 = Some 106"
    by (simp add: env_wedge_def no_gas_tx_def scenario_eval scan_start_def)
  have h3: "(106::int) \<noteq> 1" by simp
  have t1: "map hash (db (trackDeposits env_wedge (cursor_at 105))) = [''0xd1'']"
    by (simp add: trackDeposits_def env_wedge_def no_gas_tx_def scenario_eval process_blocks.simps)
  have sr: "map hash (saved_records env_wedge 106) = [''0xd1'']"
    by (simp add: saved_records_def scan_records_def block_records_def env_wedge_def no_gas_tx_def
        scenario_eval)
  have "replicate 3 env_wedge = replicate (Suc 2) env_wedge" by simp
  with Scheduler.run_ticks_wedged [OF h1 h2 h3, of 2] t1 sr h1 h2 show ?thesis
    by (simp add: numeral_2_eq_2)
qed

theorem restart_never_rescans_witness:
  "getBlockNumber env_2 = Some 105 \<and> (2::int) \<le> 105 \<and>
   list_all (\<lambda>n. 105 \<le> n) (requested (run_ticks [env_2, env_3] (init_backend [])))"
proof -
  have h1: "getBlockNumber env_2 = Some 105" by (simp add: env_2_def scenario_env_def)
  have h2: "(2::int) \<le> 105" by simp
  show ?thesis
    using Scheduler.restart_never_rescans [OF h1 h2, of "[env_3]" "[]"] h1 by (simp add: list_all_iff)
qed

section \<open>Witnesses of the findings\<close>

theorem cursor_zero_reinitialises_witness:
  "getBlockNumber env_tip1_down = Some 1 \<and> lastProcessedBlock (init_backend []) = 0 \<and>
   \<not> block_completes env_tip1_down 1 \<and> getBlockNumber env_tip10 = Some 10 \<and> (2::int) \<le> 10 \<and>
   lastProcessedBlock (trackDeposits env_tip1_down (init_backend [])) = 0 \<and>
   requested (run_ticks [env_tip1_down, env_tip10] (init_backend [])) =
     requested (init_backend []) @ [1, 10] \<and>
   list_all (\<lambda>n. n = 1 \<or> 10 \<le> n)
     (drop (length (requested (init_backend []))) (requested (run_ticks [env_tip1_down, env_tip10] (init_backend []))))"
proof -
  have h1: "getBlockNumber env_tip1_down = Some 1" by (simp add: env_tip1_down_def scenario_env_def)
  have h2: "lastProcessedBlock (init_backend []) = 0" by (simp add: init_backend_def)
  have h3: "\<not> block_completes env_tip1_down 1"
    by (simp add: block_completes_def env_tip1_down_def scenario_env_def)
  have h4: "getBlockNumber env_tip10 = Some 10" by (simp add: env_tip10_def scenario_env_def)
  have h5: "(2::int) \<le> 10" by simp
  show ?thesis
    using Scheduler.cursor_zero_reinitialises [OF h1 h2 h3 h4 h5, of "[]"] h1 h2 h3 h4 by simp
qed

theorem reprocessing_duplicates_witness:
  "getBlockNumber env_2 = Some 105 \<and> first_failure env_2 (scan_start rewound_2 105) 105 = None \<and>
   scan_start rewound_2 105 \<le> 103 \<and> (103::int) \<le> 105 \<and>
   stored_aaa \<in> set (saved_records env_2 103) \<and> hash stored_aaa \<in> set (map hash (db rewound_2)) \<and>
   2 \<le> hash_count (db (trackDeposits env_2 rewound_2)) (hash stored_aaa) \<and>
   \<not> unique_hashes (db (trackDeposits env_2 rewound_2))"
proof -
  have st: "scan_start rewound_2 105 = 101" by (simp add: rewound_2_def scan_start_def)
  have h1: "getBlockNumber env_2 = Some 105" by (simp add: env_2_def scenario_env_def)
  have h2: "first_failure env_2 (scan_start rewound_2 105) 105 = None"
    by (simp add: st first_failure_rec block_completes_def env_2_def blocks_2_def scenario_eval
        to_lower_transfer)
  have h3: "scan_start rewound_2 105 \<le> 103" "(103::int) \<le> 105" by (simp_all add: st)
  have h4: "stored_aaa \<in> set (saved_records env_2 103)"
    by (simp add: saved_records_def scan_records_def block_records_def stored_aaa_def env_2_def
        blocks_2_def scenario_eval to_lower_transfer)
  have h5: "hash stored_aaa \<in> set (map hash (db rewound_2))"
    using scenario_2_one_deposit by (simp add: rewound_2_def stored_aaa_def)
  show ?thesis
    using Scheduler.reprocessing_duplicates [OF h1 h2 h3 h4 h5] h1 h2 h3 h4 h5 by blast
qed

section \<open>Concrete runs\<close>

text \<open>
  The cursor's ambiguity on concrete chains: with tip 1 and block 1 unavailable, the
  next tick (tip 10) requests only block 10; with tip 0 the cursor even drops to -1.
\<close>

lemma cursor_zero_runs:
  "requested (run_ticks [env_tip1_down, env_tip10] (init_backend [])) = [1, 10] \<and>
   lastProcessedBlock (run_ticks [env_tip1_down, env_tip10] (init_backend [])) = 10 \<and>
   lastProcessedBlock (trackDeposits env_tip0_down (init_backend [])) = -1"
  by (simp add: trackDeposits_def env_tip1_down_def env_tip0_down_def env_tip10_def scenario_eval
      to_lower_transfer process_blocks.simps)

text \<open>
  Scenario 5 of the specification on the model: after scenario 2, with the cursor moved back
  to 100, the next tick stores the record of block 103 a second time.
\<close>

lemma scenario_5_run:
  "map hash (db (trackDeposits env_2 rewound_2)) = [''0xaaa'', ''0xaaa'']"
  by (simp add: rewound_2_def trackDeposits_def env_2_def blocks_2_def scenario_eval to_lower_transfer
      process_blocks.simps)

text \<open>
  Two overlapping ticks on one interleaving: two invocations are in flight at once, the
  first moves the cursor to 103, and the second then stores the deposit of block 101 a
  second time and moves the cursor back to 101.
\<close>

lemma overlapping_ticks_run:
  "length (inflight (sched_run False int_string race_start (take 4 race_first))) = 2 \<and>
   lastProcessedBlock (shared (sched_run False int_string race_start race_first)) = 103 \<and>
   lastProcessedBlock (shared (sched_run False int_string race_start (race_first @ race_second))) = 101 \<and>
   hash_count (db (shared (sched_run False int_string race_start (race_first @ race_second)))) ''0xaaa'' = 2"
  by (simp add: race_eval scenario_eval hash_count_def to_lower_transfer)

end
