(* ===== verification/Scan_Spec.thy ===== *)
theory Scan_Spec
  imports Scheduler
begin

text \<open>
  The specification's view of the tracker (sections 3, 4.6 and 8): a scan cursor, the
  multiset of stored records and the sequence of alert texts handed to the bot. One tick of the
  specification reads the tip, initialises an unset cursor to \<open>tip - 1\<close>, and processes
  the blocks after the cursor in ascending order up to the tip or up to the first block
  that fails, storing the records the database accepts and sending, in the same order,
  the alert of each stored record (\<open>record_alert\<close>); the cursor ends at the tip, or just before the failing block. The theorem of
  this theory is that \<open>trackDeposits\<close>, with its per-record saves, logging and
  notifications, implements this block-level specification, for one tick and for any
  sequence of non-overlapping ticks.
\<close>

record scan_state =
  cursor :: block_num
  stored :: "deposit multiset"
  alerts :: "string list"

definition abs_backend :: "backend \<Rightarrow> scan_state" where
  "abs_backend s = \<lparr>cursor = lastProcessedBlock s, stored = store_abs (db s), alerts = telegram s\<rparr>"

text \<open>The cursor a tick scans from: an unset cursor (0) stands for the block before the tip.\<close>

definition start_cursor :: "scan_state \<Rightarrow> block_num \<Rightarrow> block_num" where
  "start_cursor a tip = (if cursor a = 0 then tip - 1 else cursor a)"

definition spec_tick :: "tick_env \<Rightarrow> scan_state \<Rightarrow> scan_state" where
  "spec_tick e a =
     (case getBlockNumber e of
        None \<Rightarrow> a
      | Some tip \<Rightarrow>
          (let c0 = start_cursor a tip;
               failure = first_failure e (c0 + 1) tip;
               stop = (case failure of None \<Rightarrow> tip | Some k \<Rightarrow> k);
               new = concat (map (saved_records e) [c0 + 1..stop])
           in \<lparr>cursor = (case failure of None \<Rightarrow> max c0 tip | Some k \<Rightarrow> k - 1),
               stored = stored a + mset new,
               alerts = alerts a @ map (record_alert (date_str e)) new\<rparr>))"

fun spec_run :: "tick_env list \<Rightarrow> scan_state \<Rightarrow> scan_state" where
  "spec_run [] a = a"
| "spec_run (e # es) a = spec_run es (spec_tick e a)"

lemma start_cursor_abs:
  "start_cursor (abs_backend s) tip = scan_start s tip - 1"
  "start_cursor (abs_backend s) tip + 1 = scan_start s tip"
  by (simp_all add: start_cursor_def abs_backend_def scan_start_def)

lemma trackDeposits_abs_tick: "abs_backend (trackDeposits e s) = spec_tick e (abs_backend s)"
proof (cases "getBlockNumber e")
  case None
  then show ?thesis by (simp add: trackDeposits_def spec_tick_def abs_backend_def)
next
  case (Some tip)
  obtain ns where ns: "requested (trackDeposits e s) = requested s @ ns"
      "db (trackDeposits e s) = db s @ concat (map (saved_records e) ns)"
      "telegram (trackDeposits e s) =
         telegram s @ map (record_alert (date_str e)) (concat (map (saved_records e) ns))"
    using trackDeposits_effect [of e s] by (elim exE conjE) (rule that)
  note ctl = trackDeposits_control [OF Some, of s]
  show ?thesis
  proof (cases "first_failure e (scan_start s tip) tip")
    case None
    with ctl ns Some show ?thesis
      by (simp add: spec_tick_def Let_def start_cursor_abs) (simp add: abs_backend_def store_abs_def)
  next
    case (Some k)
    with ctl ns \<open>getBlockNumber e = Some tip\<close> show ?thesis
      by (simp add: spec_tick_def Let_def start_cursor_abs) (simp add: abs_backend_def store_abs_def)
  qed
qed

text \<open>
  C1. Refinement: for every sequence of non-overlapping ticks, the abstraction of the
  tracker's state after the ticks is the specification's state after the same ticks.
\<close>

theorem run_ticks_refines: "abs_backend (run_ticks es s) = spec_run es (abs_backend s)"
  by (induction es arbitrary: s) (simp_all add: trackDeposits_abs_tick)

end
