(* ===== verification/Serial.thy ===== *)
theory Serial
  imports Findings Scan_Spec
begin

text \<open>
  Composition of the event loop, the await-level model of \<open>trackDeposits\<close> and the
  block-level specification. A \<^emph>\<open>serial\<close> schedule is what the event loop sees when
  every tick finishes before the next one fires: for each tick, one \<open>Fire\<close> of the timer,
  then the settled values of the tick's awaits, answered by that tick's environment, in the
  order the tick awaits them (\<open>tick_answers\<close>, read off the await-level run). The theorem of
  this theory is that on a serial schedule the event loop computes \<open>run_ticks\<close>, whether or
  not it has the single-flight guard, and so meets the block-level specification (the
  refinement of \<open>Scan_Spec\<close>). Overlapping schedules are where the two differ: C10 (theory \<open>Overlap\<close>).
  The proof follows the compiler correctness pattern: one lemma per tick and an append
  lemma of the executor, composed by induction over the ticks.
\<close>

section \<open>Serial schedules\<close>

text \<open>The settled values an invocation awaits, in order, when its environment answers them.\<close>

fun answers :: "tick_env \<Rightarrow> nat \<Rightarrow> task option \<times> backend \<Rightarrow> answer list" where
  "answers e 0 x = []"
| "answers e (Suc n) (None, s) = []"
| "answers e (Suc n) (Some t, s) =
     env_answer e t # answers e n (resume (date_str e) t (env_answer e t) s)"

definition tick_answers :: "tick_env \<Rightarrow> backend \<Rightarrow> answer list" where
  "tick_answers e s = answers e (tick_fuel e s) (Some AwaitTip, s)"

fun serial_events :: "tick_env list \<Rightarrow> backend \<Rightarrow> sched_event list" where
  "serial_events [] s = []"
| "serial_events (e # es) s =
     (Fire # map (Resume 0) (tick_answers e s)) @ serial_events es (trackDeposits e s)"

text \<open>The event loop's state while one invocation (or none) is in flight.\<close>

definition to_conc :: "task option \<times> backend \<Rightarrow> conc_state" where
  "to_conc x = \<lparr>shared = snd x, inflight = (case fst x of None \<Rightarrow> [] | Some t \<Rightarrow> [t])\<rparr>"

section \<open>Lemmas\<close>

lemma sched_run_append:
  "sched_run g fmt c (xs @ ys) = sched_run g fmt (sched_run g fmt c xs) ys"
  by (simp add: sched_run_def)

lemma sched_run_Cons:
  "sched_run g fmt c (ev # evs) = sched_run g fmt (sched_step g fmt c ev) evs"
  by (simp add: sched_run_def)

lemma resume_single:
  "resume_task fmt 0 a (to_conc (Some t, s)) = to_conc (resume fmt t a s)"
  by (simp add: to_conc_def resume_task_def remove_nth_def split: prod.splits option.splits)

lemma answers_drive:
  "date_str e = fmt \<Longrightarrow>
     sched_run g fmt (to_conc x) (map (Resume 0) (answers e n x)) = to_conc (drive e n x)"
proof (induction e n x rule: drive.induct)
  case (1 e x)
  then show ?case by (simp add: sched_run_def)
next
  case (2 e n s)
  then show ?case by (simp add: sched_run_def)
next
  case (3 e n t s)
  then show ?case by (simp add: sched_run_Cons resume_single)
qed

lemma tick_events:
  "date_str e = fmt \<Longrightarrow>
     sched_run g fmt \<lparr>shared = s, inflight = []\<rparr> (Fire # map (Resume 0) (tick_answers e s) @ evs) =
     sched_run g fmt \<lparr>shared = trackDeposits e s, inflight = []\<rparr> evs"
proof -
  assume fmt: "date_str e = fmt"
  have fire: "sched_step g fmt \<lparr>shared = s, inflight = []\<rparr> Fire = to_conc (Some AwaitTip, s)"
    by (simp add: to_conc_def)
  show ?thesis
    using answers_drive [OF fmt, of g "(Some AwaitTip, s)" "tick_fuel e s"]
    by (simp only: sched_run_Cons sched_run_append fire tick_answers_def)
      (simp add: drive_tick_fuel to_conc_def)
qed

text \<open>
  C9. Serial schedules meet the specification: when each tick finishes before the next
  fires and is answered by its own environment, the event loop, with or without the
  single-flight guard, ends idle in the state \<open>run_ticks\<close> computes, and the abstraction
  of that state is the specification's state after the same ticks.
\<close>

theorem serial_schedule_refines:
  "list_all (\<lambda>e. date_str e = fmt) es \<Longrightarrow>
     sched_run g fmt \<lparr>shared = s, inflight = []\<rparr> (serial_events es s) =
       \<lparr>shared = run_ticks es s, inflight = []\<rparr> \<and>
     abs_backend (shared (sched_run g fmt \<lparr>shared = s, inflight = []\<rparr> (serial_events es s))) =
       spec_run es (abs_backend s)"
proof (induction es arbitrary: s)
  case Nil
  then show ?case by (simp add: sched_run_def)
next
  case (Cons e es)
  then have fmt: "date_str e = fmt" and rest: "list_all (\<lambda>e. date_str e = fmt) es" by simp_all
  note ih = Cons.IH [OF rest, of "trackDeposits e s"]
  have run: "sched_run g fmt \<lparr>shared = trackDeposits e s, inflight = []\<rparr> (serial_events es (trackDeposits e s)) =
      \<lparr>shared = run_ticks es (trackDeposits e s), inflight = []\<rparr>"
    by (rule conjunct1 [OF ih])
  from conjunct2 [OF ih] run have
    abs: "abs_backend (run_ticks es (trackDeposits e s)) = spec_run es (abs_backend (trackDeposits e s))"
    by simp
  show ?case
    using run abs by (simp add: tick_events [OF fmt] trackDeposits_abs_tick)
qed

text \<open>
  A serial schedule of scenarios 2 and 3: the tick answered by \<open>env_2\<close>, then the one
  answered by \<open>env_3\<close>, on a host that renders dates with \<open>int_string\<close>.
\<close>

theorem serial_schedule_refines_witness:
  "list_all (\<lambda>e. date_str e = int_string) [env_2, env_3] \<and>
   sched_run True int_string \<lparr>shared = cursor_at 100, inflight = []\<rparr> (serial_events [env_2, env_3] (cursor_at 100)) =
     \<lparr>shared = run_ticks [env_2, env_3] (cursor_at 100), inflight = []\<rparr> \<and>
   abs_backend (shared (sched_run True int_string \<lparr>shared = cursor_at 100, inflight = []\<rparr>
       (serial_events [env_2, env_3] (cursor_at 100)))) =
     spec_run [env_2, env_3] (abs_backend (cursor_at 100))"
proof -
  have h: "list_all (\<lambda>e. date_str e = int_string) [env_2, env_3]"
    by (simp add: env_2_def env_3_def scenario_env_def)
  show ?thesis
    using h serial_schedule_refines [OF h, of True "cursor_at 100"] by blast
qed

end
