(* ===== verification/Overlap.thy ===== *)
theory Overlap
  imports Serial
begin

text \<open>
  Two overlapping ticks without the single-flight guard. \<open>setInterval\<close> fires a second
  invocation of \<open>trackDeposits\<close> while the first still awaits; both read the tip and the
  same cursor before either has moved it, so both scan the same range. The schedule
  \<open>overlap_events\<close> is the simplest such interleaving: two \<open>Fire\<close>s, both tip answers,
  then the first invocation runs to its end answered by the environment, then the second.
  The ghost field \<open>requested\<close> never influences the code (\<open>resume_strip\<close>,
  \<open>drive_strip\<close>), so an invocation suspended at \<open>getBlockWithTransactions\<close> behaves
  as the block loop \<open>process_blocks\<close> from that block, whatever the other invocation
  requested meanwhile (\<open>drive_await_complete\<close>).
\<close>

section \<open>The overlapping schedule\<close>

text \<open>A backend state without the ghost history of requests.\<close>

definition strip :: "backend \<Rightarrow> backend" where
  "strip s = s\<lparr>requested := []\<rparr>"

text \<open>The event loop while task \<open>t1\<close> waits behind the invocation \<open>x\<close>.\<close>

definition to_conc2 :: "task option \<times> backend \<Rightarrow> task \<Rightarrow> conc_state" where
  "to_conc2 x t1 = \<lparr>shared = snd x, inflight = (case fst x of None \<Rightarrow> [t1] | Some t \<Rightarrow> [t, t1])\<rparr>"

definition overlap_events :: "tick_env \<Rightarrow> backend \<Rightarrow> nat \<Rightarrow> sched_event list" where
  "overlap_events e s n =
     (let pre = [Fire, Fire, Resume 0 (TipAnswer (getBlockNumber e)), Resume 1 (TipAnswer (getBlockNumber e))];
          c1 = sched_run False (date_str e) \<lparr>shared = s, inflight = []\<rparr> pre;
          a1 = answers e n (Some (hd (inflight c1)), shared c1);
          c2 = sched_run False (date_str e) c1 (map (Resume 0) a1);
          a2 = answers e n (Some (hd (inflight c2)), shared c2)
      in pre @ map (Resume 0) a1 @ map (Resume 0) a2)"

section \<open>Lemmas\<close>

lemma strip_fields [simp]:
  "db (strip s) = db s" "lastProcessedBlock (strip s) = lastProcessedBlock s"
  "logs (strip s) = logs s" "telegram (strip s) = telegram s" "requested (strip s) = []"
  by (simp_all add: strip_def)

lemma next_deposit_strip:
  "map_prod id strip (next_deposit latest cur b ds (strip s)) = map_prod id strip (next_deposit latest cur b ds s)"
  by (cases ds) (simp_all add: strip_def advance_def request_block_def Let_def add_log_def split: sum.splits)

lemma after_save_strip:
  "after_save fmt ok cur b d r (strip s) = strip (after_save fmt ok cur b d r s)"
  by (simp add: strip_def after_save_def split: option.splits)

lemma add_log_strip: "add_log l (strip s) = strip (add_log l s)"
  by (simp add: strip_def add_log_def)

lemma start_scan_strip:
  "map_prod id strip (start_scan latest (strip s)) = map_prod id strip (start_scan latest s)"
  by (simp add: strip_def start_scan_def request_block_def Let_def)

lemma resume_strip:
  "map_prod id strip (resume fmt t a (strip s)) = map_prod id strip (resume fmt t a s)"
proof (cases "(fmt, t, a, s)" rule: resume.cases)
  case (6 fmt latest cur b d ds r ok s)
  then show ?thesis
    using next_deposit_strip [of latest cur b ds "after_save fmt ok cur b d r s"]
    by (simp add: after_save_strip)
qed (simp_all add: add_log_strip start_scan_strip next_deposit_strip)

lemma drive_strip:
  "fst x = fst y \<Longrightarrow> strip (snd x) = strip (snd y) \<Longrightarrow>
     map_prod id strip (drive e n x) = map_prod id strip (drive e n y)"
proof (induction e n x arbitrary: y rule: drive.induct)
  case (1 e x)
  then show ?case by (cases x, cases y) simp
next
  case (2 e n s)
  then show ?case by (cases y) simp
next
  case (3 e n t s)
  obtain s' where y: "y = (Some t, s')" using "3.prems"(1) by (cases y) auto
  let ?a = "env_answer e t"
  have "map_prod id strip (resume (date_str e) t ?a s) = map_prod id strip (resume (date_str e) t ?a s')"
    using resume_strip [of "date_str e" t ?a s] resume_strip [of "date_str e" t ?a s'] "3.prems"(2) y
    by simp
  then have "fst (resume (date_str e) t ?a s) = fst (resume (date_str e) t ?a s')"
      "strip (snd (resume (date_str e) t ?a s)) = strip (snd (resume (date_str e) t ?a s'))"
    by (simp_all add: map_prod_def split: prod.splits)
  from "3.IH" [OF this] y show ?case by simp
qed

text \<open>An invocation suspended at \<open>getBlockWithTransactions(cur)\<close> runs the block loop from \<open>cur\<close>.\<close>

lemma drive_await_block:
  assumes "cur \<le> latest" and pb: "process_blocks e latest cur (strip s) = (r, s')"
  shows "map_prod id strip
           (drive e (length (requested s') + length (concat (map (scan_records e) (requested s'))))
              (Some (AwaitBlock latest cur), s)) = (None, strip (finish (r, s')))"
proof -
  have "drive e (length (requested s') + length (concat (map (scan_records e) (requested s'))))
          (request_block latest cur (strip s)) = (None, finish (r, s'))"
    using drive_request_block [OF assms] by simp
  moreover have "strip (snd (request_block latest cur (strip s))) = strip s"
      "fst (request_block latest cur (strip s)) = Some (AwaitBlock latest cur)"
    by (simp_all add: request_block_def strip_def)
  ultimately show ?thesis
    using drive_strip [of "(Some (AwaitBlock latest cur), s)" "request_block latest cur (strip s)" e]
    by simp
qed

lemma drive_await_complete:
  assumes le: "cur \<le> tip" and ok: "first_failure e cur tip = None"
    and fuel: "length [cur..tip] + length (concat (map (scan_records e) [cur..tip])) \<le> n"
  shows "\<exists>s'. drive e n (Some (AwaitBlock tip cur), s) = (None, s') \<and>
           db s' = db s @ concat (map (saved_records e) [cur..tip]) \<and> lastProcessedBlock s' = tip"
proof -
  obtain r s1 where pb: "process_blocks e tip cur (strip s) = (r, s1)" by fastforce
  from process_blocks_control [OF pb] ok le have
    r: "r = None" and rq: "requested s1 = [cur..tip]" and cur: "lastProcessedBlock s1 = tip"
    by simp_all
  from process_blocks_effect [OF pb] rq have db1: "db s1 = db s @ concat (map (saved_records e) [cur..tip])"
    by auto
  obtain t2 s2 where d: "drive e (length [cur..tip] + length (concat (map (scan_records e) [cur..tip])))
      (Some (AwaitBlock tip cur), s) = (t2, s2)" by fastforce
  from drive_await_block [OF le pb] d rq r have "t2 = None" "strip s2 = strip s1"
    by (simp_all add: finish_def)
  then have "db s2 = db s1" "lastProcessedBlock s2 = lastProcessedBlock s1"
    by (metis strip_fields(1), metis strip_fields(2))
  with drive_finished [OF d [unfolded \<open>t2 = None\<close>] fuel] db1 cur show ?thesis by auto
qed

lemma resume_pair:
  "resume_task fmt 0 a (to_conc2 (Some t, s) t1) = to_conc2 (resume fmt t a s) t1"
  by (simp add: to_conc2_def resume_task_def remove_nth_def split: prod.splits option.splits)

lemma answers_drive2:
  "date_str e = fmt \<Longrightarrow>
     sched_run g fmt (to_conc2 x t1) (map (Resume 0) (answers e n x)) = to_conc2 (drive e n x) t1"
proof (induction e n x rule: drive.induct)
  case (1 e x)
  then show ?case by (simp add: sched_run_def)
next
  case (2 e n s)
  then show ?case by (simp add: sched_run_def)
next
  case (3 e n t s)
  then show ?case by (simp add: sched_run_Cons resume_pair)
qed

section \<open>Overlapping ticks store every record twice\<close>

text \<open>
  C10. Overlapping ticks duplicate records. Without the single-flight guard, when two
  ticks fire before either has finished and both read the tip while the cursor is still
  set below it, and every block of the range completes, the event loop ends idle with
  every accepted record of the range stored twice and the cursor at the tip; the same two
  ticks run one after the other store each record once.
\<close>

theorem overlapping_ticks_duplicate:
  assumes tip: "getBlockNumber e = Some tip"
    and pos: "0 < lastProcessedBlock s" and behind: "lastProcessedBlock s < tip"
    and ok: "first_failure e (lastProcessedBlock s + 1) tip = None"
    and fuel: "length [lastProcessedBlock s + 1..tip] +
                 length (concat (map (scan_records e) [lastProcessedBlock s + 1..tip])) \<le> n"
  shows "inflight (sched_run False (date_str e) \<lparr>shared = s, inflight = []\<rparr> (overlap_events e s n)) = [] \<and>
         db (shared (sched_run False (date_str e) \<lparr>shared = s, inflight = []\<rparr> (overlap_events e s n))) =
           db s @ concat (map (saved_records e) [lastProcessedBlock s + 1..tip]) @
             concat (map (saved_records e) [lastProcessedBlock s + 1..tip]) \<and>
         lastProcessedBlock (shared (sched_run False (date_str e) \<lparr>shared = s, inflight = []\<rparr>
             (overlap_events e s n))) = tip \<and>
         db (run_ticks [e, e] s) = db s @ concat (map (saved_records e) [lastProcessedBlock s + 1..tip])"
proof -
  define cur where "cur = lastProcessedBlock s + 1"
  define X where "X = concat (map (saved_records e) [cur..tip])"
  define s2 where "s2 = s\<lparr>requested := requested s @ [cur, cur]\<rparr>"
  let ?fmt = "date_str e"
  let ?A = "AwaitBlock tip cur"
  let ?pre = "[Fire, Fire, Resume 0 (TipAnswer (getBlockNumber e)), Resume 1 (TipAnswer (getBlockNumber e))]"
  have le: "cur \<le> tip" using behind by (simp add: cur_def)
  have c1: "sched_run False ?fmt \<lparr>shared = s, inflight = []\<rparr> ?pre = \<lparr>shared = s2, inflight = [?A, ?A]\<rparr>"
    using tip pos behind
    by (simp add: sched_run_def resume_task_def remove_nth_def start_scan_def request_block_def Let_def
        s2_def cur_def)
  from drive_await_complete [OF le ok [folded cur_def] fuel [folded cur_def], of s2] obtain s3 where
    d1: "drive e n (Some ?A, s2) = (None, s3)" and db3: "db s3 = db s @ X" and cur3: "lastProcessedBlock s3 = tip"
    by (auto simp: s2_def X_def)
  from drive_await_complete [OF le ok [folded cur_def] fuel [folded cur_def], of s3] obtain s4 where
    d2: "drive e n (Some ?A, s3) = (None, s4)" and db4: "db s4 = db s3 @ X" and cur4: "lastProcessedBlock s4 = tip"
    by (auto simp: X_def)
  have c2: "sched_run False ?fmt \<lparr>shared = s2, inflight = [?A, ?A]\<rparr> (map (Resume 0) (answers e n (Some ?A, s2))) =
      \<lparr>shared = s3, inflight = [?A]\<rparr>"
    using answers_drive2 [of e ?fmt False "(Some ?A, s2)" ?A n, OF refl] d1 by (simp add: to_conc2_def)
  have c3: "sched_run False ?fmt \<lparr>shared = s3, inflight = [?A]\<rparr> (map (Resume 0) (answers e n (Some ?A, s3))) =
      \<lparr>shared = s4, inflight = []\<rparr>"
    using answers_drive [of e ?fmt False "(Some ?A, s3)" n, OF refl] d2 by (simp add: to_conc_def)
  have ev: "overlap_events e s n = ?pre @ map (Resume 0) (answers e n (Some ?A, s2)) @
      map (Resume 0) (answers e n (Some ?A, s3))"
    unfolding overlap_events_def Let_def c1 by (simp add: c2)
  have run: "sched_run False ?fmt \<lparr>shared = s, inflight = []\<rparr> (overlap_events e s n) = \<lparr>shared = s4, inflight = []\<rparr>"
    by (simp only: ev sched_run_append c1 c2 c3)
  have st1: "scan_start s tip = cur" using pos by (simp add: scan_start_def cur_def)
  from trackDeposits_complete [OF tip, of s] ok st1 have
    t1: "db (trackDeposits e s) = db s @ X" "lastProcessedBlock (trackDeposits e s) = tip"
    using le by (simp_all add: X_def cur_def)
  have st2: "scan_start (trackDeposits e s) tip = tip + 1" using t1(2) pos behind by (simp add: scan_start_def)
  have ok2: "first_failure e (scan_start (trackDeposits e s) tip) tip = None" by (simp add: st2 first_failure_rec)
  from trackDeposits_complete [OF tip ok2] st2 t1 have "db (run_ticks [e, e] s) = db s @ X" by simp
  with run db3 db4 cur4 show ?thesis by (simp add: X_def cur_def)
qed

text \<open>Scenario 2 with two overlapping ticks: the deposit of block 103 is stored twice.\<close>

theorem overlapping_ticks_duplicate_witness:
  "getBlockNumber env_2 = Some 105 \<and> 0 < lastProcessedBlock (cursor_at 100) \<and>
   lastProcessedBlock (cursor_at 100) < 105 \<and>
   first_failure env_2 (lastProcessedBlock (cursor_at 100) + 1) 105 = None \<and>
   length [lastProcessedBlock (cursor_at 100) + 1..105] +
     length (concat (map (scan_records env_2) [lastProcessedBlock (cursor_at 100) + 1..105])) \<le> 6 \<and>
   inflight (sched_run False (date_str env_2) \<lparr>shared = cursor_at 100, inflight = []\<rparr>
     (overlap_events env_2 (cursor_at 100) 6)) = [] \<and>
   db (shared (sched_run False (date_str env_2) \<lparr>shared = cursor_at 100, inflight = []\<rparr>
     (overlap_events env_2 (cursor_at 100) 6))) =
     db (cursor_at 100) @ concat (map (saved_records env_2) [lastProcessedBlock (cursor_at 100) + 1..105]) @
       concat (map (saved_records env_2) [lastProcessedBlock (cursor_at 100) + 1..105]) \<and>
   lastProcessedBlock (shared (sched_run False (date_str env_2) \<lparr>shared = cursor_at 100, inflight = []\<rparr>
     (overlap_events env_2 (cursor_at 100) 6))) = 105 \<and>
   db (run_ticks [env_2, env_2] (cursor_at 100)) =
     db (cursor_at 100) @ concat (map (saved_records env_2) [lastProcessedBlock (cursor_at 100) + 1..105])"
proof -
  have c: "lastProcessedBlock (cursor_at 100) = 100" by (simp add: cursor_at_def)
  have h1: "getBlockNumber env_2 = Some 105" by (simp add: env_2_def scenario_env_def)
  have h2: "0 < lastProcessedBlock (cursor_at 100)" "lastProcessedBlock (cursor_at 100) < 105"
    by (simp_all add: c)
  have h4: "first_failure env_2 (lastProcessedBlock (cursor_at 100) + 1) 105 = None"
    by (simp add: c first_failure_rec block_completes_def env_2_def blocks_2_def scenario_eval
        to_lower_transfer)
  have h5: "length [lastProcessedBlock (cursor_at 100) + 1..105] +
     length (concat (map (scan_records env_2) [lastProcessedBlock (cursor_at 100) + 1..105])) \<le> 6"
    by (simp add: c scan_records_def block_records_def env_2_def blocks_2_def scenario_eval
        to_lower_transfer)
  show ?thesis
    using overlapping_ticks_duplicate [OF h1 h2 h4 h5] h1 h2 h4 h5 by blast
qed

end
