(* ===== verification/Api.thy ===== *)
theory Api
  imports Backend
begin

text \<open>
  The HTTP surface of src/backend/index.js: \<open>GET /api/deposits\<close> (lines 135--142) lists the
  collection, \<open>POST /api/deposits\<close> (lines 145--163) stores a record built from the request
  body. The body is modelled as a complete record. The schema marks no field
  \<open>required\<close>, so a body with missing fields is saved with those fields absent, which
  the record type cannot express: such bodies are not modelled. A field mongoose cannot
  cast to its schema type makes the \<open>save\<close> reject, which the database answer \<open>ok\<close>
  covers.
  Responses are values; the handlers change only the collection and the log.
\<close>

datatype response =
    JsonDeposits "deposit list"
  | JsonDeposit deposit
  | ServerError string

definition server_error :: response where
  "server_error = ServerError ''Server error''"

definition get_deposits :: "bool \<Rightarrow> backend \<Rightarrow> response" where
  "get_deposits ok s = (if ok then JsonDeposits (find_all (db s)) else server_error)"

definition post_deposits :: "bool \<Rightarrow> deposit \<Rightarrow> backend \<Rightarrow> response \<times> backend" where
  "post_deposits ok body s =
     (let newDeposit = \<lparr>blockNumber = blockNumber body, blockTimestamp = blockTimestamp body,
                        fee = fee body, hash = hash body, pubkey = pubkey body\<rparr>
      in case save ok newDeposit (db s) of
           Some c \<Rightarrow> (JsonDeposit newDeposit,
                      s\<lparr>db := c, logs := logs s @ [ManualDepositAdded (hash body)]\<rparr>)
         | None \<Rightarrow> (server_error, add_log ErrorAddingManualDeposit s))"

text \<open>
  C16. Manual insertion and listing: a successful POST answers with the record and
  appends it to the collection, so that the next GET lists it last, after every record
  stored before; a failed POST answers 500 and changes nothing but the log. Neither moves
  the cursor nor sends a notification.
\<close>

theorem post_then_get:
  "post_deposits ok d s = (r, s') \<Longrightarrow>
     (if ok then r = JsonDeposit d \<and> get_deposits True s' = JsonDeposits (db s @ [d])
      else r = server_error \<and> db s' = db s \<and> logs s' = logs s @ [ErrorAddingManualDeposit]) \<and>
     lastProcessedBlock s' = lastProcessedBlock s \<and> telegram s' = telegram s"
  by (auto simp: post_deposits_def save_def get_deposits_def find_all_def Let_def)

end
