(* ===== verification/Frontend.thy ===== *)
theory Frontend
  imports Api
begin

text \<open>
  The React display of src/frontend/src/App.js. The component keeps the list of
  deposits (\<open>useState([])\<close>, line 7); \<open>useEffect(..., [])\<close> (lines 10--12) runs
  \<open>fetchDeposits\<close> once, after the first render; \<open>fetchDeposits\<close> (lines 14--21) issues one
  GET and, when it answers, stores the answer's list (an error or a 500 answer is only
  logged to the console). The table (lines 38--45) has one row per deposit, keyed by the
  hash, with the block number, hash, fee and the timestamp rendered by the browser's
  \<open>toLocaleString\<close> (a parameter). The component's life is a sequence of events: a
  render, or the arrival of the answer (\<open>None\<close> for a network error).
\<close>

record app_state =
  deposits :: "deposit list"
  mounted :: bool
  requests :: nat

datatype app_event = Render | Answer "response option"

definition app_init :: app_state where
  "app_init = \<lparr>deposits = [], mounted = False, requests = 0\<rparr>"

definition setDeposits_answer :: "response option \<Rightarrow> app_state \<Rightarrow> app_state" where
  "setDeposits_answer a st =
     (case a of Some (JsonDeposits ds) \<Rightarrow> st\<lparr>deposits := ds\<rparr> | _ \<Rightarrow> st)"

fun app_step :: "app_state \<Rightarrow> app_event \<Rightarrow> app_state" where
  "app_step st Render =
     (if mounted st then st else st\<lparr>mounted := True, requests := Suc (requests st)\<rparr>)"
| "app_step st (Answer a) = setDeposits_answer a st"

definition app_run :: "app_event list \<Rightarrow> app_state" where
  "app_run evs = foldl app_step app_init evs"

record row =
  row_key :: string
  row_cells :: "string list"

definition deposit_row :: "(int \<Rightarrow> string) \<Rightarrow> deposit \<Rightarrow> row" where
  "deposit_row locale_str d =
     \<lparr>row_key = hash d,
      row_cells = [int_string (blockNumber d), hash d, fee d, locale_str (blockTimestamp d)]\<rparr>"

definition render_rows :: "(int \<Rightarrow> string) \<Rightarrow> app_state \<Rightarrow> row list" where
  "render_rows locale_str st = map (deposit_row locale_str) (deposits st)"

text \<open>
  The page the component returns (lines 23--50): a title, a subtitle, and a table whose
  header row names the four columns and whose body is \<open>render_rows\<close>.
\<close>

record page =
  page_title :: string
  page_subtitle :: string
  page_header :: "string list"
  page_rows :: "row list"

definition app_view :: "(int \<Rightarrow> string) \<Rightarrow> app_state \<Rightarrow> page" where
  "app_view locale_str st =
     \<lparr>page_title = ''Ethereum Deposit Tracker'', page_subtitle = ''Deposits'',
      page_header = [''Block Number'', ''Transaction Hash'', ''Fee'', ''Timestamp''],
      page_rows = render_rows locale_str st\<rparr>"

text \<open>
  Not part of the program: the list of the last successful answer among the events, or
  the empty list when no answer carried a list.
\<close>

definition shown_deposits :: "app_event list \<Rightarrow> deposit list" where
  "shown_deposits evs =
     (case rev [ds. Answer (Some (JsonDeposits ds)) \<leftarrow> evs] of [] \<Rightarrow> [] | ds # _ \<Rightarrow> ds)"

lemma app_run_deposits: "deposits (app_run evs) = shown_deposits evs"
proof (induction evs rule: rev_induct)
  case Nil
  then show ?case by (simp add: app_run_def app_init_def shown_deposits_def)
next
  case (snoc ev evs)
  then show ?case
    by (cases ev)
      (auto simp: app_run_def setDeposits_answer_def shown_deposits_def
        split: option.splits response.splits)
qed

lemma app_step_requests:
  "requests (app_step st ev) = (if ev = Render \<and> \<not> mounted st then Suc (requests st) else requests st)"
  by (cases ev) (auto simp: setDeposits_answer_def split: option.splits response.splits)

lemma app_step_mounted: "mounted (app_step st ev) \<longleftrightarrow> mounted st \<or> ev = Render"
  by (cases ev) (auto simp: setDeposits_answer_def split: option.splits response.splits)

lemma foldl_app_step_requests:
  "requests (foldl app_step st evs) \<le> requests st + (if mounted st then 0 else 1)"
proof (induction evs arbitrary: st)
  case Nil
  then show ?case by simp
next
  case (Cons ev evs)
  show ?case
    using Cons.IH [of "app_step st ev"]
    by (auto simp: app_step_requests app_step_mounted split: if_splits)
qed

text \<open>
  C17. The display fetches once: whatever sequence of renders and answers the component
  goes through, it issues at most one request to the backend; it does not poll.
\<close>

theorem app_fetches_at_most_once: "requests (app_run evs) \<le> 1"
  using foldl_app_step_requests [of app_init evs] by (simp add: app_run_def app_init_def)

text \<open>
  C21. The page is well formed and shows the last good answer: after any sequence of
  renders and answers, every row of the table has one cell per header column, and the
  rows are those of the list carried by the last successful answer; a failed request
  (a network error or a 500 answer) leaves the table as it was, empty before any success.
\<close>

theorem app_view_table:
  "page_rows (app_view ls (app_run evs)) = map (deposit_row ls) (shown_deposits evs) \<and>
   list_all (\<lambda>r. length (row_cells r) = length (page_header (app_view ls (app_run evs))))
     (page_rows (app_view ls (app_run evs)))"
  by (simp add: app_run_deposits app_view_def render_rows_def deposit_row_def list_all_iff)

end
