(* ===== verification/Logging.thy ===== *)
theory Logging
  imports Tracker
begin

text \<open>
  The winston logger of src/backend/index.js (lines 17--25): logger level \<open>info\<close>, a
  console transport without a level of its own, and a file transport
  \<open>logs/error.log\<close> at level \<open>error\<close>. winston uses the npm levels, ordered by priority
  (\<open>error\<close> 0 to \<open>silly\<close> 6); a transport writes an entry when the entry's priority is
  at most the transport's level, and a transport without a level takes the logger's.
  \<open>log_level\<close> is a \<open>linorder\<close> in that order (more severe is smaller), so the
  filtering reads \<open>entry_level l \<le> level\<close>. \<open>entry_level\<close> is the method each log call
  of the source uses (\<open>logger.info\<close> at lines 116 and 158, \<open>logger.error\<close> at lines 119,
  127 and 160). The theorem of this theory is what the error file receives from a tick.
\<close>

section \<open>Levels\<close>

datatype log_level = LError | LWarn | LInfo | LHttp | LVerbose | LDebug | LSilly

fun npm_priority :: "log_level \<Rightarrow> nat" where
  "npm_priority LError = 0"
| "npm_priority LWarn = 1"
| "npm_priority LInfo = 2"
| "npm_priority LHttp = 3"
| "npm_priority LVerbose = 4"
| "npm_priority LDebug = 5"
| "npm_priority LSilly = 6"

instantiation log_level :: linorder
begin

definition less_eq_log_level :: "log_level \<Rightarrow> log_level \<Rightarrow> bool" where
  "less_eq_log_level a b \<longleftrightarrow> npm_priority a \<le> npm_priority b"

definition less_log_level :: "log_level \<Rightarrow> log_level \<Rightarrow> bool" where
  "less_log_level a b \<longleftrightarrow> npm_priority a < npm_priority b"

instance
proof
  fix x y z :: log_level
  show "x < y \<longleftrightarrow> x \<le> y \<and> \<not> y \<le> x"
    by (auto simp: less_eq_log_level_def less_log_level_def)
  show "x \<le> x"
    by (simp add: less_eq_log_level_def)
  show "x \<le> y \<Longrightarrow> y \<le> z \<Longrightarrow> x \<le> z"
    by (simp add: less_eq_log_level_def)
  show "x = y" if "x \<le> y" "y \<le> x"
    using that by (cases x; cases y) (simp_all add: less_eq_log_level_def)
  show "x \<le> y \<or> y \<le> x"
    by (auto simp: less_eq_log_level_def)
qed

end

section \<open>The logger\<close>

datatype transport = Console | File string

record transport_cfg =
  t_kind :: transport
  t_level :: "log_level option"

record logger_cfg =
  logger_level :: log_level
  logger_transports :: "transport_cfg list"

definition logger :: logger_cfg where
  "logger =
     \<lparr>logger_level = LInfo,
      logger_transports =
        [\<lparr>t_kind = Console, t_level = None\<rparr>,
         \<lparr>t_kind = File ''logs/error.log'', t_level = Some LError\<rparr>]\<rparr>"

fun entry_level :: "log_entry \<Rightarrow> log_level" where
  "entry_level (NewDepositSaved h) = LInfo"
| "entry_level ErrorSavingDeposit = LError"
| "entry_level (ErrorTrackingDeposits err) = LError"
| "entry_level (ManualDepositAdded h) = LInfo"
| "entry_level ErrorAddingManualDeposit = LError"

definition transport_accepts :: "logger_cfg \<Rightarrow> transport_cfg \<Rightarrow> log_entry \<Rightarrow> bool" where
  "transport_accepts cfg t l \<longleftrightarrow>
     entry_level l \<le> (case t_level t of None \<Rightarrow> logger_level cfg | Some lv \<Rightarrow> lv)"

text \<open>The entries a destination receives, in the order they were logged.\<close>

definition transport_lines :: "logger_cfg \<Rightarrow> transport \<Rightarrow> log_entry list \<Rightarrow> log_entry list" where
  "transport_lines cfg k ls =
     filter (\<lambda>l. list_ex (\<lambda>t. t_kind t = k \<and> transport_accepts cfg t l) (logger_transports cfg)) ls"

section \<open>Lemmas\<close>

lemma transport_lines_append [simp]:
  "transport_lines cfg k (xs @ ys) = transport_lines cfg k xs @ transport_lines cfg k ys"
  by (simp add: transport_lines_def)

lemma console_lines [simp]: "transport_lines logger Console ls = ls"
proof -
  have "entry_level l \<le> LInfo" for l
    by (cases l) (simp_all add: less_eq_log_level_def)
  then show ?thesis
    by (simp add: transport_lines_def logger_def transport_accepts_def)
qed

lemma error_file_lines:
  "transport_lines logger (File ''logs/error.log'') ls = filter (\<lambda>l. entry_level l = LError) ls"
proof -
  have "entry_level l \<le> LError \<longleftrightarrow> entry_level l = LError" for l
    by (cases l) (simp_all add: less_eq_log_level_def)
  then show ?thesis
    by (simp add: transport_lines_def logger_def transport_accepts_def)
qed

lemma tick_abort_log_errors: "filter (\<lambda>l. entry_level l = LError) (tick_abort_log e s) = tick_abort_log e s"
  by (simp add: tick_abort_log_def split: option.splits)

text \<open>
  C20. What the log files receive from a tick: the console receives every entry; the
  error file \<open>logs/error.log\<close> receives one \<open>Error saving deposit\<close> line per record of
  the scanned blocks that the database rejected, in order, followed by the tick's abort
  line if it aborted, and nothing for the deposits that were saved.
\<close>

theorem tick_error_file:
  "transport_lines logger Console (logs (trackDeposits e s)) = logs (trackDeposits e s) \<and>
   transport_lines logger (File ''logs/error.log'') (logs (trackDeposits e s)) =
     transport_lines logger (File ''logs/error.log'') (logs s) @
     map (\<lambda>r. ErrorSavingDeposit)
       (filter (\<lambda>r. \<not> save_ok e r)
          (concat (map (scan_records e) (drop (length (requested s)) (requested (trackDeposits e s)))))) @
     tick_abort_log e s"
proof -
  obtain ns where ns: "requested (trackDeposits e s) = requested s @ ns"
      "logs (trackDeposits e s) = logs s @ map (record_log e) (concat (map (scan_records e) ns)) @ tick_abort_log e s"
    using trackDeposits_logs [of e s] by blast
  have "filter (\<lambda>l. entry_level l = LError) (map (record_log e) rs) =
      map (\<lambda>r. ErrorSavingDeposit) (filter (\<lambda>r. \<not> save_ok e r) rs)" for rs
    by (induction rs) (simp_all add: record_log_def)
  with ns show ?thesis
    by (simp add: error_file_lines tick_abort_log_errors)
qed

end
