(* ===== verification/Spec2Isabelle.thy ===== *)
theory Spec2Isabelle
  imports Overlap Frontend Logging
begin

text \<open>
  \<^bold>\<open>A verification development of the Ethereum deposit tracker.\<close>

  \<^bold>\<open>The program.\<close> src/backend/index.js is a Node.js process with two parts that share a
  MongoDB collection. The \<^emph>\<open>tracker\<close> (\<open>trackDeposits\<close>, lines 68--129, started every five
  seconds by \<open>setInterval\<close>, line 132) reads the chain's tip from the alchemy-sdk provider,
  walks the blocks after the module-level cursor \<open>lastProcessedBlock\<close> (line 65), keeps the
  transactions sent to the Beacon Deposit Contract, stores one \<open>Deposit\<close> document per such
  transaction (schema, lines 34--45), logs it and hands an alert to a Telegram bot
  (\<open>sendTelegramMessage\<close>, lines 59--62). The \<^emph>\<open>HTTP surface\<close> (lines 134--163) lists the
  collection and inserts records by hand. src/frontend/src/App.js fetches the list once and
  renders it as a table.

  \<^bold>\<open>The theories.\<close>
  \<^item> \<open>Prelude\<close>: type names (\<open>block_num\<close>, \<open>address\<close>, \<open>tx_hash\<close>), the
    \<open>eval_simps\<close> collection (each component adds the equations of its operations, and
    the scenario proofs evaluate runs with it), and a lemma on integer ranges.
  \<^item> \<open>Js_Strings\<close>: the JavaScript runtime operations the code relies on (decimal printing
    of integers, ASCII \<open>toLowerCase\<close>) and a decimal reader with the round trip
    \<open>parse_int (int_string i) = i\<close>.
  \<^item> \<open>Deposit\<close>: the provider's transaction and block objects, the \<open>deposit\<close> record of
    the schema, the \<open>error\<close> values that reach the outer \<open>catch\<close>
    (\<open>ProviderError\<close>, \<open>TypeError\<close>), and \<open>new_deposit\<close> (lines 99--105).
  \<^item> \<open>Deposit_Filter\<close>: \<open>contractAddress\<close>, \<open>is_deposit\<close>, \<open>deposits_of\<close> (lines 70,
    93--95).
  \<^item> \<open>Store\<close>: the collection as a list in insertion order, \<open>save\<close> and \<open>find_all\<close>
    (which returns that order, see below);
    the multiset view, hash counts, and uniqueness of hashes as ``every hash counted at most
    once''.
  \<^item> \<open>Notifier\<close>: the alert template (lines 110--114) and \<open>sendTelegramMessage\<close>; the
    outbox records every text handed to the bot; \<open>record_alert\<close> is the alert read off a
    stored record, and \<open>parse_alert\<close> reads an alert back.
  \<^item> \<open>Backend\<close>: the shared state (cursor, collection, outbox, log, and \<open>requested\<close>, a
    history variable of the model listing the blocks requested from the provider).
  \<^item> \<open>Tracker\<close>: one tick; its effect lemmas give the requested blocks, the collection,
    the outbox (\<open>record_alert\<close>) and the log (\<open>record_log\<close>) after a tick.
    \<open>after_save\<close>/\<open>save_and_notify\<close> (lines 107--120),
    \<open>process_deposits\<close> (lines 97--121), \<open>process_blocks\<close> (lines 80--125, a
    \<open>function\<close> terminating by the measure \<open>latest - current + 1\<close>), \<open>trackDeposits\<close>.
    The provider's answers, the database's answers and the host's date rendering form the
    tick's environment \<open>tick_env\<close>. Exceptions are \<open>error\<close> values returned with the state
    reached, since the global state changed before a throw stays changed.
  \<^item> \<open>Serial\<close>: serial schedules of the event loop (one \<open>Fire\<close>, then the tick's
    answers from its environment) and the theorem that they compute \<open>run_ticks\<close>.
  \<^item> \<open>Scheduler\<close>: \<open>run_ticks\<close>, ticks that do not overlap; what a sequence of ticks
    appends (every new record belongs to a block requested after the first tick), and the
    runs that never recover (C11--C15).
  \<^item> \<open>Async\<close>: the same function at the level of its three \<open>await\<close>s, suspended
    invocations as \<open>task\<close>s, and the event loop \<open>sched_step\<close> that interleaves them
    (\<open>guard = False\<close> is the code, \<open>guard = True\<close> the single-flight guard of the
    specification's section 5).
  \<^item> \<open>Overlap\<close>: two overlapping invocations on the event loop without the guard;
    the ghost field \<open>requested\<close> never influences the code, so a suspended invocation
    behaves as the block loop from the block it waits for.
  \<^item> \<open>Scan_Spec\<close>: the specification's block-level tick on an abstract state (cursor,
    multiset of records, number of alerts) and the refinement theorem.
  \<^item> \<open>Logging\<close>: the winston logger (lines 17--25): the npm levels as a \<open>linorder\<close>,
    the console and \<open>logs/error.log\<close> transports, the level of each log call, and the
    lines each transport receives.
  \<^item> \<open>Api\<close>, \<open>Frontend\<close>: the two routes, and the React component as a state machine over
    render and answer events, with the page it returns (lines 23--50).
  \<^item> \<open>Scenarios\<close>, \<open>Findings\<close>: the specification's concrete scenarios and the runs that
    exhibit the defects below; they also hold the witnesses of the theorems with
    hypotheses.

  \<^bold>\<open>What is proved.\<close> C1: \<open>trackDeposits\<close> refines the block-level specification over any
  sequence of non-overlapping ticks. C2--C5, C8: a tick requests the blocks after the
  cursor once each, in ascending order, up to the tip or the first failing block; the
  cursor ends at the tip or just before that block, never moves back once set, and does
  not depend on the database's answers; the records written are exactly the accepted
  records of the requested blocks, and the alerts are exactly the alert texts of those
  records (block, timestamp, hash, fee, input, signature), in order. C1's abstract state
  holds the multiset of records and the sequence of alert texts. C6, C7: the filter is a
  case-insensitive comparison with the contract address; a record gives back its
  transaction's block, timestamp, exact gas price, hash and input. C9: on a serial
  schedule (each tick answered by its own environment and finished before the next fires)
  the await-level event loop, with or without the guard, computes \<open>run_ticks\<close> and so
  meets the block-level specification. C16--C18: the HTTP routes, the display, and their
  agreement with the store. C19: the log of a tick is one line per record built (saved
  with its hash, or a save error), then one tracking-error line exactly when the tick
  aborted (a provider error for an unreadable tip or a rejected block, a \<open>TypeError\<close>
  for a \<open>null\<close> block or a deposit without gas price). C20: the console receives every
  log line and \<open>logs/error.log\<close> one line per rejected save plus the abort line. C21: the
  page's table is rectangular and shows the last successful answer. C22: a tick requests
  only blocks between its start and the tip, at most \<open>tip - start + 1\<close> of them, and the
  cursor stays below the larger of its old value and the tip. C23: the records the tracker
  stores have a decimal-as-text fee and a whole-second timestamp, after any sequence of
  ticks. C24: an alert reads back as its record's block number, hash, fee and input.

  \<^bold>\<open>What modelling showed.\<close> C10: without a single-flight guard two overlapping ticks
  that read the same cursor both scan the range, and every accepted record of it is
  stored twice (the same ticks run serially store it once). C11: a block whose failure
  does not go away (a deposit without gas price makes \<open>gasPrice.toString()\<close> throw
  outside the inner \<open>try\<close>) wedges the tracker forever and makes every tick store the
  block's earlier deposits again. C12: the cursor is not persisted, so blocks below the
  tip at a restart are never scanned. C13: the cursor value 0 means both ``unset'' and
  ``block 0 done'': an abort at block 1 on the first tick makes the next tick jump to the
  tip, and the blocks in between are never requested. C14: the store is not idempotent:
  re-processing a block whose record is stored breaks uniqueness of hashes. C15: a record
  the database rejects is lost for good: the cursor passes its block and no later tick
  requests the block again. The POST route stores bodies that break the data model's
  types, which the tracker's own records keep (C23); a block not yet available
  (\<open>null\<close>) is reported as a \<open>TypeError\<close>, not as the provider error the specification
  names; both are shown on concrete runs (\<open>post_breaks_wf_records\<close>,
  \<open>scenario_null_block\<close>).

  \<^bold>\<open>Bounds and fuel.\<close> Block numbers, timestamps and gas prices are \<open>int\<close>: the values
  the program handles are far inside the range where JavaScript numbers are exact.
  \<open>drive\<close>, the await-level run of one invocation, takes fuel; \<open>tick_fuel\<close> suffices
  (\<open>drive_tick_fuel\<close>): one resumption for the tip, one per block requested and one per
  record built, since each of them is one \<open>await\<close>; any larger amount gives the same
  result (\<open>drive_finished\<close>). C10 takes as fuel the number of blocks of the range plus
  the number of records built from it, which is what each invocation needs after its tip.

  \<^bold>\<open>Not modelled.\<close> Configuration and wiring (dotenv, express and CORS setup, mongoose
  connection, the bot's construction, \<open>app.listen\<close>) and \<open>console.log\<close> output:
  they hold no state the program reads. The rejection handler of \<open>mongoose.connect\<close>
  (line 31) logs whenever the connection fails, at a time the model cannot place among the
  ticks, so it is left out. The provider and the
  database are modelled by their answers (for a block: a rejection, \<open>null\<close> or the
  block), not by the libraries' internals; mongoose's casting of request bodies is
  folded into the database's answer; \<open>Date.prototype.toString\<close> and
  \<open>toLocaleString\<close> are parameters (they depend on the host's time zone and locale);
  \<open>toLowerCase\<close> is modelled on ASCII. \<open>Deposit.find()\<close> without a sort returns
  MongoDB's natural order, which MongoDB does not guarantee; the model takes insertion
  order, as an unsharded collection without deletions returns in practice, and C16 and
  C18 depend on that assumption.
\<close>

text \<open>A record inserted by hand through the POST route.\<close>

definition manual_deposit :: deposit where
  "manual_deposit =
     \<lparr>blockNumber = 20000000, blockTimestamp = 1717000000000, fee = ''1000000000'',
      hash = ''0xmanual'', pubkey = ''0x00''\<rparr>"

text \<open>A hand-made body whose fee is not decimal-as-text and whose date has milliseconds.\<close>

definition malformed_body :: deposit where
  "malformed_body =
     \<lparr>blockNumber = 20000001, blockTimestamp = 1717000000123, fee = ''12.5 gwei'',
      hash = ''0xhand'', pubkey = ''0x''\<rparr>"

text \<open>
  C18. The display agrees with the store: after the first render and the answer of the
  GET route, the table has one row per stored record, in the collection's order, and its
  React keys are distinct exactly when no two stored records share a hash (so duplicate
  records, C10 and C14, become colliding keys).
\<close>

theorem display_lists_store:
  "render_rows ls (app_run [Render, Answer (Some (get_deposits True s))]) = map (deposit_row ls) (db s) \<and>
   (distinct (map row_key (render_rows ls (app_run [Render, Answer (Some (get_deposits True s))])))
      \<longleftrightarrow> unique_hashes (db s))"
  by (simp add: app_run_def app_init_def setDeposits_answer_def get_deposits_def find_all_def
      render_rows_def deposit_row_def unique_hashes_def comp_def)

theorem post_then_get_witness:
  "fst (post_deposits True manual_deposit (cursor_at 100)) = JsonDeposit manual_deposit \<and>
   get_deposits True (snd (post_deposits True manual_deposit (cursor_at 100))) =
     JsonDeposits [manual_deposit] \<and>
   lastProcessedBlock (snd (post_deposits True manual_deposit (cursor_at 100))) = 100"
proof -
  have h: "post_deposits True manual_deposit (cursor_at 100) =
      (fst (post_deposits True manual_deposit (cursor_at 100)),
       snd (post_deposits True manual_deposit (cursor_at 100)))"
    by simp
  show ?thesis
    using Api.post_then_get [OF h] by (simp add: cursor_at_def init_backend_def)
qed

text \<open>
  The manual route does not keep the data model's types: a POST whose body has a fee
  that is not decimal-as-text is stored as it is, so the invariant the tracker keeps (C23)
  holds of the collection only as long as nobody uses the route.
\<close>

lemma post_breaks_wf_records:
  "list_all wf_record (db (cursor_at 100)) \<and>
   \<not> list_all wf_record (db (snd (post_deposits True malformed_body (cursor_at 100))))"
  by (simp add: post_deposits_def Let_def save_def cursor_at_def init_backend_def malformed_body_def
      wf_record_def decimal_text_def parse_int_def parse_nat_def digit_val_def int_string_def
      nat_string.simps digit_char_def)

end
